theory Spec2Isabelle
  imports Complex_Main "HOL-Library.Char_ord" "HOL-Library.List_Lexorder"
begin

section \<open>Conventions\<close>

text \<open>
  The ledger is Python over SQLite (or PostgreSQL, through the database manager).  A Python \<open>float\<close> (an SQL \<open>REAL\<close>) is modelled as a
  \<^typ>\<open>real\<close> with exact arithmetic, a Python \<open>int\<close> (an SQL \<open>INTEGER\<close>) as an
  \<^typ>\<open>int\<close>, a \<open>TEXT\<close> value as a \<^typ>\<open>string\<close>, and a column that may hold
  \<open>NULL\<close> as an \<open>option\<close>.  A table is the list of its rows in rowid order.  A function
  that catches every exception and returns \<open>None\<close> returns an \<open>option\<close>; an exception
  that escapes is the \<open>Inl\<close> of a sum.
\<close>

datatype py_error =
  ZeroDivisionError | OperationalError | ProgrammingError | IntegrityError | IndexError | KeyError

text \<open>Python's \<open>int(x)\<close> on a float truncates toward zero.\<close>

definition py_int :: "real \<Rightarrow> int" where
  "py_int x = (if 0 \<le> x then \<lfloor>x\<rfloor> else \<lceil>x\<rceil>)"

text \<open>
  Python's \<open>max(xs)\<close> on a non-empty list keeps the first item and replaces it by each
  later item that compares greater; \<open>max(a, b)\<close> is the same on two items.
\<close>

definition py_max2 :: "real \<Rightarrow> real \<Rightarrow> real" where
  "py_max2 a b = (if b > a then b else a)"

fun py_max :: "real list \<Rightarrow> real" where
  "py_max [] = 0"
| "py_max (x # xs) = fold (\<lambda>y m. if y > m then y else m) xs x"


section \<open>Strategy analytics (\<open>strategy_analytics.py\<close>)\<close>

subsection \<open>Rows\<close>

text \<open>
  A row of \<open>strategy_trades\<close>; the analytics read its \<open>pnl\<close> only.  A row of
  \<open>strategy_performance\<close> as \<open>update_strategy_performance\<close> writes it: every metric
  column holds a number.
\<close>

record trade =
  t_strategy_id :: int
  t_symbol :: string
  t_timestamp :: string
  t_pnl :: real

record strategy_performance =
  sp_strategy_id :: int
  sp_total_trades :: int
  sp_winning_trades :: int
  sp_losing_trades :: int
  sp_consecutive_losses :: int
  sp_total_pnl :: real
  sp_win_rate :: real
  sp_profit_factor :: real
  sp_max_drawdown :: real
  sp_current_drawdown :: real
  sp_roi_pct :: real
  sp_last_updated :: string

subsection \<open>\<open>_get_performance\<close>\<close>

text \<open>\<open>SELECT * FROM strategy_performance WHERE strategy_id = ?\<close>, \<open>fetch='one'\<close>.\<close>

definition get_performance :: "strategy_performance list \<Rightarrow> int \<Rightarrow> strategy_performance option" where
  "get_performance tbl strategy_id = find (\<lambda>r. sp_strategy_id r = strategy_id) tbl"

subsection \<open>\<open>_calculate_drawdown\<close>\<close>

text \<open>The first loop: the running total of \<open>pnl\<close>, appended after each trade.\<close>

fun cumulative_pnl :: "real \<Rightarrow> trade list \<Rightarrow> real list" where
  "cumulative_pnl running_total [] = []"
| "cumulative_pnl running_total (t # ts) =
     (running_total + t_pnl t) # cumulative_pnl (running_total + t_pnl t) ts"

text \<open>
  The second loop, over the cumulative series, with the loop variables \<open>max_drawdown\<close> and
  \<open>peak\<close> as arguments.
\<close>

fun drawdown_loop :: "real \<Rightarrow> real \<Rightarrow> real list \<Rightarrow> real" where
  "drawdown_loop max_drawdown peak [] = max_drawdown"
| "drawdown_loop max_drawdown peak (pnl # rest) =
     (let peak' = (if pnl > peak then pnl else peak);
          drawdown = (if peak' \<noteq> 0 then (peak' - pnl) / \<bar>peak'\<bar> else 0)
      in drawdown_loop (py_max2 max_drawdown drawdown) peak' rest)"

text \<open>The result is the pair \<open>(max_drawdown, current_drawdown)\<close>, in this order.\<close>

definition calculate_drawdown :: "trade list \<Rightarrow> real \<times> real" where
  "calculate_drawdown trades =
     (if trades = [] then (0, 0)
      else
        let cum = cumulative_pnl 0 trades;
            max_drawdown = drawdown_loop 0 (hd cum) cum;
            current_peak = py_max cum;
            current_pnl = last cum;
            current_drawdown =
              (if current_peak \<noteq> 0 then (current_peak - current_pnl) / \<bar>current_peak\<bar> else 0)
        in (max_drawdown, current_drawdown))"

subsection \<open>\<open>check_optimization_triggers\<close>\<close>

text \<open>
  The reasons of triggers 2 to 4 embed a formatted number (\<open>:.1%\<close>, \<open>:.2f\<close>); the two
  formatters are parameters.  Without a performance row the answer is \<open>(False, "")\<close>.
\<close>

definition check_optimization_triggers ::
  "(real \<Rightarrow> string) \<Rightarrow> (real \<Rightarrow> string) \<Rightarrow> strategy_performance list \<Rightarrow> int \<Rightarrow> bool \<times> string" where
  "check_optimization_triggers fmt_pct fmt_2f tbl strategy_id =
     (case get_performance tbl strategy_id of
        None \<Rightarrow> (False, '''')
      | Some perf \<Rightarrow>
          if sp_consecutive_losses perf \<ge> 5 then (True, ''5 consecutive losses'')
          else if sp_total_trades perf \<ge> 20 \<and> sp_win_rate perf < 0.40 then
            (True, ''Win rate '' @ fmt_pct (sp_win_rate perf) @ '' below 40%'')
          else if sp_current_drawdown perf > 0.15 then
            (True, ''Drawdown '' @ fmt_pct (sp_current_drawdown perf) @ '' above 15%'')
          else if sp_total_trades perf \<ge> 20 \<and> sp_total_pnl perf < 0 then
            (True, ''Negative P&L: $'' @ fmt_2f (sp_total_pnl perf))
          else (False, ''''))"


section \<open>FIFO P&L backfill (\<open>scripts/backfill_pnl.py\<close>)\<close>

subsection \<open>Rows and loop state\<close>

text \<open>
  A row of \<open>orders\<close> as the script selects it (\<open>pnl\<close> may be \<open>NULL\<close>), an open lot of
  the per-symbol queue, and an entry of the \<open>updates\<close> list.
\<close>

record order_row =
  o_id :: int
  o_symbol :: string
  o_side :: string
  o_quantity :: real
  o_price :: real
  o_timestamp :: string
  o_pnl :: "real option"

record lot =
  lot_price :: real
  lot_quantity :: real
  lot_timestamp :: string

record pnl_update =
  u_id :: int
  u_symbol :: string
  u_old_pnl :: real
  u_new_pnl :: real
  u_timestamp :: string

text \<open>
  The variables the \<open>for\<close> loop carries: \<open>positions\<close> (a \<open>defaultdict(list)\<close>, so a
  total function with value \<open>[]\<close> at an unseen symbol), \<open>updates\<close> and \<open>total_pnl\<close>.
\<close>

record backfill_state =
  bs_positions :: "string \<Rightarrow> lot list"
  bs_updates :: "pnl_update list"
  bs_total_pnl :: real

subsection \<open>\<open>str.upper\<close> on ASCII\<close>

definition upper_char :: "char \<Rightarrow> char" where
  "upper_char c =
     (case map_of (zip ''abcdefghijklmnopqrstuvwxyz'' ''ABCDEFGHIJKLMNOPQRSTUVWXYZ'') c of
        None \<Rightarrow> c | Some u \<Rightarrow> u)"

definition py_upper :: "string \<Rightarrow> string" where
  "py_upper s = map upper_char s"

subsection \<open>The query\<close>

text \<open>
  \<open>SELECT ... FROM orders ORDER BY timestamp ASC\<close>: \<open>TEXT\<close> timestamps compare bytewise,
  and rows with equal timestamps keep their rowid order.
\<close>

definition select_orders :: "order_row list \<Rightarrow> order_row list" where
  "select_orders tbl = sort_key o_timestamp tbl"

subsection \<open>The matching loop\<close>

text \<open>
  The \<open>while remaining_qty > 0 and positions[symbol]\<close> loop, with its variables
  \<open>remaining_qty\<close> and \<open>calculated_pnl\<close> as arguments; it returns both and the symbol's
  queue.  After a partial lot \<open>remaining_qty\<close> is \<open>0\<close>, which ends the loop.
\<close>

fun sell_loop :: "real \<Rightarrow> real \<Rightarrow> real \<Rightarrow> lot list \<Rightarrow> real \<times> real \<times> lot list" where
  "sell_loop price remaining_qty calculated_pnl [] = (remaining_qty, calculated_pnl, [])"
| "sell_loop price remaining_qty calculated_pnl (oldest # rest) =
     (if remaining_qty > 0 then
        if lot_quantity oldest \<le> remaining_qty then
          sell_loop price (remaining_qty - lot_quantity oldest)
            (calculated_pnl + (price - lot_price oldest) * lot_quantity oldest) rest
        else
          (0, calculated_pnl + (price - lot_price oldest) * remaining_qty,
           oldest\<lparr>lot_quantity := lot_quantity oldest - remaining_qty\<rparr> # rest)
      else (remaining_qty, calculated_pnl, oldest # rest))"

text \<open>
  The first half of the loop body: a \<open>BUY\<close> appends a lot, a \<open>SELL\<close> runs the matching
  loop from \<open>calculated_pnl = 0.0\<close>, any other side does nothing.  The result is the new
  \<open>positions\<close> and, for a \<open>SELL\<close>, the pair \<open>(remaining_qty, calculated_pnl)\<close>.
\<close>

definition match_order ::
  "(string \<Rightarrow> lot list) \<Rightarrow> order_row \<Rightarrow> (real \<times> real) option \<times> (string \<Rightarrow> lot list)" where
  "match_order positions ord =
     (let symbol = o_symbol ord; side = py_upper (o_side ord);
          quantity = o_quantity ord; price = o_price ord; timestamp = o_timestamp ord
      in if side = ''BUY'' then
           (None, positions(symbol := positions symbol @
              [\<lparr>lot_price = price, lot_quantity = quantity, lot_timestamp = timestamp\<rparr>]))
         else if side = ''SELL'' then
           (case sell_loop price quantity 0 (positions symbol) of
              (remaining_qty, calculated_pnl, lots) \<Rightarrow>
                (Some (remaining_qty, calculated_pnl), positions(symbol := lots)))
         else (None, positions))"

text \<open>
  The whole loop body: after the matching, a \<open>SELL\<close> whose computed value differs from the
  stored one (\<open>order['pnl'] or 0.0\<close>) by more than \<open>0.001\<close> is queued for update.
\<close>

definition process_order :: "backfill_state \<Rightarrow> order_row \<Rightarrow> backfill_state" where
  "process_order st ord =
     (let current_pnl = (case o_pnl ord of None \<Rightarrow> 0 | Some v \<Rightarrow> v)
      in case match_order (bs_positions st) ord of
           (None, positions) \<Rightarrow> st\<lparr>bs_positions := positions\<rparr>
         | (Some (remaining_qty, calculated_pnl), positions) \<Rightarrow>
             if \<bar>calculated_pnl - current_pnl\<bar> > 0.001 then
               st\<lparr>bs_positions := positions,
                  bs_updates := bs_updates st @
                    [\<lparr>u_id = o_id ord, u_symbol = o_symbol ord, u_old_pnl = current_pnl,
                      u_new_pnl = calculated_pnl, u_timestamp = o_timestamp ord\<rparr>],
                  bs_total_pnl := bs_total_pnl st + calculated_pnl\<rparr>
             else st\<lparr>bs_positions := positions\<rparr>)"

definition initial_state :: backfill_state where
  "initial_state = \<lparr>bs_positions = (\<lambda>symbol. []), bs_updates = [], bs_total_pnl = 0\<rparr>"

definition process_orders :: "backfill_state \<Rightarrow> order_row list \<Rightarrow> backfill_state" where
  "process_orders st orders = foldl process_order st orders"

text \<open>
  The value \<open>calculated_pnl\<close> of every \<open>SELL\<close> in a replay, by order id: what the loop
  computes before it compares with the stored value.
\<close>

fun calculated_pnls :: "(string \<Rightarrow> lot list) \<Rightarrow> order_row list \<Rightarrow> (int \<times> real) list" where
  "calculated_pnls positions [] = []"
| "calculated_pnls positions (ord # orders) =
     (case match_order positions ord of
        (None, positions') \<Rightarrow> calculated_pnls positions' orders
      | (Some (remaining_qty, calculated_pnl), positions') \<Rightarrow>
          (o_id ord, calculated_pnl) # calculated_pnls positions' orders)"

subsection \<open>Applying the updates\<close>

text \<open>\<open>UPDATE orders SET pnl = ? WHERE id = ?\<close>, once per entry of \<open>updates\<close>, in order.\<close>

fun apply_updates :: "pnl_update list \<Rightarrow> order_row list \<Rightarrow> order_row list" where
  "apply_updates [] tbl = tbl"
| "apply_updates (u # us) tbl =
     apply_updates us
       (map (\<lambda>r. if o_id r = u_id u then r\<lparr>o_pnl := Some (u_new_pnl u)\<rparr> else r) tbl)"

text \<open>
  \<open>backfill_pnl\<close>: the \<open>orders\<close> table it leaves behind and the final loop state (the
  printed report is read off the state).  A dry run writes nothing.
\<close>

definition backfill_pnl :: "order_row list \<Rightarrow> bool \<Rightarrow> order_row list \<times> backfill_state" where
  "backfill_pnl tbl dry_run =
     (let st = process_orders initial_state (select_orders tbl);
          updates = bs_updates st
      in if updates \<noteq> [] \<and> \<not> dry_run then (apply_updates updates tbl, st) else (tbl, st))"

text \<open>
  The spec's description of one sell, as a function of its own: pop the oldest lot; a lot
  of at most the remaining quantity is realized whole and discarded, a larger one is
  realized for the remaining quantity, shrunk by it, and ends the matching.  It returns the
  realized P&L and the lots left open.
\<close>

fun spec_fifo_realize :: "real \<Rightarrow> real \<Rightarrow> lot list \<Rightarrow> real \<times> lot list" where
  "spec_fifo_realize P Q [] = (0, [])"
| "spec_fifo_realize P Q (l # lots) =
     (if Q \<le> 0 then (0, l # lots)
      else if lot_quantity l \<le> Q then
        (case spec_fifo_realize P (Q - lot_quantity l) lots of
           (realized, open_lots) \<Rightarrow> ((P - lot_price l) * lot_quantity l + realized, open_lots))
      else ((P - lot_price l) * Q, l\<lparr>lot_quantity := lot_quantity l - Q\<rparr> # lots))"


text \<open>
  The spec's description of the whole engine, as a function of its own: a queue of open
  lots per symbol; a buy pushes a new lot at the back of its symbol's queue; a sell
  realizes against its symbol's queue as above.  It returns the realized P&L of every
  sell, by order id.
\<close>

fun spec_fifo_replay :: "(string \<Rightarrow> lot list) \<Rightarrow> order_row list \<Rightarrow> (int \<times> real) list" where
  "spec_fifo_replay queues [] = []"
| "spec_fifo_replay queues (ord # history) =
     (if py_upper (o_side ord) = ''BUY'' then
        spec_fifo_replay
          (queues(o_symbol ord := queues (o_symbol ord) @
             [\<lparr>lot_price = o_price ord, lot_quantity = o_quantity ord,
               lot_timestamp = o_timestamp ord\<rparr>])) history
      else if py_upper (o_side ord) = ''SELL'' then
        (case spec_fifo_realize (o_price ord) (o_quantity ord) (queues (o_symbol ord)) of
           (realized, open_lots) \<Rightarrow>
             (o_id ord, realized) # spec_fifo_replay (queues(o_symbol ord := open_lots)) history)
      else spec_fifo_replay queues history)"


section \<open>Balance reconciliation (\<open>account_balance_updater.py\<close>)\<close>

subsection \<open>Tables\<close>

text \<open>
  The \<open>account\<close> and \<open>positions\<close> tables with the columns the ledger scripts name;
  \<open>total_value\<close>, \<open>current_price\<close> and \<open>stop_loss\<close> are nullable.
\<close>

record account_row =
  a_id :: int
  a_cash :: real
  a_total_value :: "real option"
  a_last_updated :: string

record position_row =
  p_symbol :: string
  p_quantity :: real
  p_entry_price :: real
  p_current_price :: "real option"
  p_stop_loss :: "real option"
  p_last_updated :: string

record ledger =
  db_account :: "account_row list"
  db_positions :: "position_row list"

record balance =
  b_cash :: real
  b_positions_value :: real
  b_total_value :: real
  b_num_positions :: nat

text \<open>A value of the result dictionary of \<open>check_balance_discrepancy\<close>.\<close>

datatype py_value = Float real | Bool bool

subsection \<open>\<open>calculate_account_balance\<close>\<close>

text \<open>
  The loop \<open>total_position_value += pos['quantity'] * pos['current_price']\<close>; a \<open>NULL\<close>
  price raises \<open>TypeError\<close>, which the function catches and answers with \<open>None\<close>.
\<close>

fun total_position_value :: "real \<Rightarrow> position_row list \<Rightarrow> real option" where
  "total_position_value acc [] = Some acc"
| "total_position_value acc (pos # rest) =
     (case p_current_price pos of
        None \<Rightarrow> None
      | Some current_price \<Rightarrow> total_position_value (acc + p_quantity pos * current_price) rest)"

definition calculate_account_balance :: "('a ledger_scheme) \<Rightarrow> balance option" where
  "calculate_account_balance db =
     (case find (\<lambda>a. a_id a = 1) (db_account db) of
        None \<Rightarrow> None
      | Some account \<Rightarrow>
          (case total_position_value 0 (db_positions db) of
             None \<Rightarrow> None
           | Some positions_value \<Rightarrow>
               Some \<lparr>b_cash = a_cash account, b_positions_value = positions_value,
                     b_total_value = a_cash account + positions_value,
                     b_num_positions = length (db_positions db)\<rparr>))"

subsection \<open>\<open>update_account_balance\<close>\<close>

text \<open>
  \<open>UPDATE account SET total_value = ?, last_updated = ? WHERE id = 1\<close> with the computed
  total and the clock reading \<open>now\<close>; cash and positions are not written.
\<close>

definition update_account_balance :: "string \<Rightarrow> ledger \<Rightarrow> ledger \<times> balance option" where
  "update_account_balance now db =
     (case calculate_account_balance db of
        None \<Rightarrow> (db, None)
      | Some bal \<Rightarrow>
          (db\<lparr>db_account :=
                map (\<lambda>a. if a_id a = 1
                          then a\<lparr>a_total_value := Some (b_total_value bal), a_last_updated := now\<rparr>
                          else a) (db_account db)\<rparr>,
           Some bal))"

subsection \<open>\<open>check_balance_discrepancy\<close>\<close>

text \<open>
  The result dictionary, in the order of its keys.  A \<open>NULL\<close> stored total raises
  \<open>TypeError\<close> in the subtraction, caught as \<open>None\<close>.
\<close>

definition check_balance_discrepancy :: "ledger \<Rightarrow> real \<Rightarrow> (string \<times> py_value) list option" where
  "check_balance_discrepancy db threshold =
     (case calculate_account_balance db of
        None \<Rightarrow> None
      | Some bal \<Rightarrow>
          (case find (\<lambda>a. a_id a = 1) (db_account db) of
             None \<Rightarrow> None
           | Some account \<Rightarrow>
               (case a_total_value account of
                  None \<Rightarrow> None
                | Some stored_total \<Rightarrow>
                    let discrepancy = b_total_value bal - stored_total;
                        discrepancy_pct =
                          (if stored_total > 0 then discrepancy / stored_total * 100 else 0)
                    in Some [(''calculated_total'', Float (b_total_value bal)),
                             (''stored_total'', Float stored_total),
                             (''discrepancy'', Float discrepancy),
                             (''discrepancy_pct'', Float discrepancy_pct),
                             (''has_issue'', Bool (\<bar>discrepancy\<bar> > threshold))])))"


section \<open>Schema (\<open>db_manager.py\<close> and the migration scripts)\<close>

subsection \<open>Tables and statements\<close>

text \<open>
  A schema lists the tables with their columns, a column being its name and its
  declaration.  \<open>CREATE TABLE IF NOT EXISTS\<close> leaves an existing table as it is.  Table
  constraints and indexes add no column and are left out.
\<close>

datatype db_type = Sqlite | Postgresql

type_synonym column = "string \<times> string"

type_synonym schema = "(string \<times> column list) list"

definition create_table_if_not_exists :: "string \<times> column list \<Rightarrow> schema \<Rightarrow> schema" where
  "create_table_if_not_exists tbl sch =
     (if fst tbl \<in> set (map fst sch) then sch else sch @ [tbl])"

definition columns_of :: "schema \<Rightarrow> string \<Rightarrow> string list" where
  "columns_of sch name = (case map_of sch name of None \<Rightarrow> [] | Some cols \<Rightarrow> map fst cols)"

subsection \<open>\<open>_create_trading_tables\<close>\<close>

definition account_sql :: "db_type \<Rightarrow> string \<times> column list" where
  "account_sql db_type =
     (if db_type = Sqlite then
        (''account'',
         [(''id'', ''INTEGER PRIMARY KEY''), (''cash'', ''REAL NOT NULL''),
          (''last_updated'', ''TEXT NOT NULL'')])
      else
        (''account'',
         [(''id'', ''SERIAL PRIMARY KEY''), (''cash'', ''DECIMAL(15,2) NOT NULL''),
          (''last_updated'', ''TIMESTAMP NOT NULL'')]))"

definition positions_sql :: "db_type \<Rightarrow> string \<times> column list" where
  "positions_sql db_type =
     (if db_type = Sqlite then
        (''positions'',
         [(''symbol'', ''TEXT PRIMARY KEY''), (''quantity'', ''REAL NOT NULL''),
          (''entry_price'', ''REAL NOT NULL''), (''entry_date'', ''TEXT NOT NULL''),
          (''last_updated'', ''TEXT NOT NULL'')])
      else
        (''positions'',
         [(''symbol'', ''VARCHAR(20) PRIMARY KEY''), (''quantity'', ''DECIMAL(15,4) NOT NULL''),
          (''entry_price'', ''DECIMAL(15,2) NOT NULL''), (''entry_date'', ''TIMESTAMP NOT NULL''),
          (''last_updated'', ''TIMESTAMP NOT NULL'')]))"

definition orders_sql :: "db_type \<Rightarrow> string \<times> column list" where
  "orders_sql db_type =
     (if db_type = Sqlite then
        (''orders'',
         [(''id'', ''INTEGER PRIMARY KEY AUTOINCREMENT''), (''symbol'', ''TEXT NOT NULL''),
          (''side'', ''TEXT NOT NULL''), (''quantity'', ''REAL NOT NULL''),
          (''price'', ''REAL NOT NULL''), (''timestamp'', ''TEXT NOT NULL''),
          (''pnl'', ''REAL DEFAULT 0'')])
      else
        (''orders'',
         [(''id'', ''SERIAL PRIMARY KEY''), (''symbol'', ''VARCHAR(20) NOT NULL''),
          (''side'', ''VARCHAR(10) NOT NULL''), (''quantity'', ''DECIMAL(15,4) NOT NULL''),
          (''price'', ''DECIMAL(15,2) NOT NULL''), (''timestamp'', ''TIMESTAMP NOT NULL''),
          (''pnl'', ''DECIMAL(15,2) DEFAULT 0'')]))"

definition performance_sql :: "db_type \<Rightarrow> string \<times> column list" where
  "performance_sql db_type =
     (if db_type = Sqlite then
        (''performance'',
         [(''timestamp'', ''TEXT PRIMARY KEY''), (''total_value'', ''REAL NOT NULL''),
          (''cash'', ''REAL NOT NULL''), (''positions_value'', ''REAL NOT NULL'')])
      else
        (''performance'',
         [(''timestamp'', ''TIMESTAMP PRIMARY KEY''),
          (''total_value'', ''DECIMAL(15,2) NOT NULL''), (''cash'', ''DECIMAL(15,2) NOT NULL''),
          (''positions_value'', ''DECIMAL(15,2) NOT NULL'')]))"

definition create_trading_tables :: "db_type \<Rightarrow> schema \<Rightarrow> schema" where
  "create_trading_tables db_type sch =
     create_table_if_not_exists (performance_sql db_type)
       (create_table_if_not_exists (orders_sql db_type)
         (create_table_if_not_exists (positions_sql db_type)
           (create_table_if_not_exists (account_sql db_type) sch)))"

subsection \<open>\<open>_create_youtube_strategy_tables\<close>\<close>

definition strategies_sql :: "db_type \<Rightarrow> string \<times> column list" where
  "strategies_sql db_type =
     (if db_type = Sqlite then
        (''youtube_strategies'',
         [(''id'', ''INTEGER PRIMARY KEY AUTOINCREMENT''), (''title'', ''TEXT NOT NULL''),
          (''creator'', ''TEXT NOT NULL''), (''youtube_url'', ''TEXT UNIQUE NOT NULL''),
          (''video_id'', ''TEXT NOT NULL''), (''description'', ''TEXT''),
          (''strategy_overview'', ''TEXT''), (''trading_style'', ''TEXT''),
          (''instruments'', ''TEXT''), (''entry_rules'', ''TEXT''), (''exit_rules'', ''TEXT''),
          (''risk_management'', ''TEXT''), (''strategy_code'', ''TEXT''), (''tags'', ''TEXT''),
          (''performance_metrics'', ''TEXT''), (''pros'', ''TEXT''), (''cons'', ''TEXT''),
          (''created_at'', ''TEXT NOT NULL''), (''updated_at'', ''TEXT NOT NULL'')])
      else
        (''youtube_strategies'',
         [(''id'', ''SERIAL PRIMARY KEY''), (''title'', ''VARCHAR(500) NOT NULL''),
          (''creator'', ''VARCHAR(200) NOT NULL''),
          (''youtube_url'', ''VARCHAR(500) UNIQUE NOT NULL''),
          (''video_id'', ''VARCHAR(20) NOT NULL''), (''description'', ''TEXT''),
          (''strategy_overview'', ''TEXT''), (''trading_style'', ''VARCHAR(100)''),
          (''instruments'', ''TEXT''), (''entry_rules'', ''TEXT''), (''exit_rules'', ''TEXT''),
          (''risk_management'', ''TEXT''), (''strategy_code'', ''TEXT''), (''tags'', ''TEXT''),
          (''performance_metrics'', ''TEXT''), (''pros'', ''TEXT''), (''cons'', ''TEXT''),
          (''created_at'', ''TIMESTAMP NOT NULL''), (''updated_at'', ''TIMESTAMP NOT NULL'')]))"

definition backtests_sql :: "db_type \<Rightarrow> string \<times> column list" where
  "backtests_sql db_type =
     (if db_type = Sqlite then
        (''strategy_backtests'',
         [(''id'', ''INTEGER PRIMARY KEY AUTOINCREMENT''), (''strategy_id'', ''INTEGER NOT NULL''),
          (''ticker'', ''TEXT NOT NULL''), (''start_date'', ''TEXT''), (''end_date'', ''TEXT''),
          (''total_return'', ''REAL''), (''sharpe_ratio'', ''REAL''), (''max_drawdown'', ''REAL''),
          (''win_rate'', ''REAL''), (''total_trades'', ''INTEGER''), (''backtest_data'', ''TEXT''),
          (''created_at'', ''TEXT NOT NULL'')])
      else
        (''strategy_backtests'',
         [(''id'', ''SERIAL PRIMARY KEY''), (''strategy_id'', ''INTEGER NOT NULL''),
          (''ticker'', ''VARCHAR(20) NOT NULL''), (''start_date'', ''DATE''),
          (''end_date'', ''DATE''), (''total_return'', ''DECIMAL(10,4)''),
          (''sharpe_ratio'', ''DECIMAL(10,4)''), (''max_drawdown'', ''DECIMAL(10,4)''),
          (''win_rate'', ''DECIMAL(5,4)''), (''total_trades'', ''INTEGER''),
          (''backtest_data'', ''TEXT''), (''created_at'', ''TIMESTAMP NOT NULL'')]))"

definition create_youtube_strategy_tables :: "db_type \<Rightarrow> schema \<Rightarrow> schema" where
  "create_youtube_strategy_tables db_type sch =
     create_table_if_not_exists (backtests_sql db_type)
       (create_table_if_not_exists (strategies_sql db_type) sch)"

subsection \<open>\<open>_create_screener_tables\<close>\<close>

definition profiles_sql :: "db_type \<Rightarrow> string \<times> column list" where
  "profiles_sql db_type =
     (if db_type = Sqlite then
        (''screener_profiles'',
         [(''id'', ''INTEGER PRIMARY KEY AUTOINCREMENT''), (''name'', ''TEXT UNIQUE NOT NULL''),
          (''description'', ''TEXT''), (''theme'', ''TEXT NOT NULL''), (''finviz_url'', ''TEXT''),
          (''finviz_filters'', ''TEXT''), (''sector_focus'', ''TEXT''), (''schedule'', ''TEXT''),
          (''enabled'', ''INTEGER DEFAULT 1''), (''weights'', ''TEXT''),
          (''performance_score'', ''REAL DEFAULT 0.5''), (''created_at'', ''TEXT NOT NULL''),
          (''updated_at'', ''TEXT NOT NULL'')])
      else
        (''screener_profiles'',
         [(''id'', ''SERIAL PRIMARY KEY''), (''name'', ''VARCHAR(100) UNIQUE NOT NULL''),
          (''description'', ''TEXT''), (''theme'', ''VARCHAR(50) NOT NULL''),
          (''finviz_url'', ''TEXT''), (''finviz_filters'', ''JSONB''),
          (''sector_focus'', ''JSONB''), (''schedule'', ''JSONB''),
          (''enabled'', ''BOOLEAN DEFAULT TRUE''), (''weights'', ''JSONB''),
          (''performance_score'', ''DECIMAL(5,4) DEFAULT 0.5''),
          (''created_at'', ''TIMESTAMP NOT NULL''), (''updated_at'', ''TIMESTAMP NOT NULL'')]))"

definition runs_sql :: "db_type \<Rightarrow> string \<times> column list" where
  "runs_sql db_type =
     (if db_type = Sqlite then
        (''profile_runs'',
         [(''id'', ''INTEGER PRIMARY KEY AUTOINCREMENT''), (''profile_id'', ''INTEGER NOT NULL''),
          (''run_type'', ''TEXT NOT NULL''), (''stocks_found'', ''INTEGER DEFAULT 0''),
          (''recommendations_generated'', ''INTEGER DEFAULT 0''),
          (''run_timestamp'', ''TEXT NOT NULL''), (''ai_agent_used'', ''TEXT''),
          (''run_data'', ''TEXT'')])
      else
        (''profile_runs'',
         [(''id'', ''SERIAL PRIMARY KEY''), (''profile_id'', ''INTEGER NOT NULL''),
          (''run_type'', ''VARCHAR(20) NOT NULL''), (''stocks_found'', ''INTEGER DEFAULT 0''),
          (''recommendations_generated'', ''INTEGER DEFAULT 0''),
          (''run_timestamp'', ''TIMESTAMP NOT NULL''), (''ai_agent_used'', ''VARCHAR(50)''),
          (''run_data'', ''JSONB'')]))"

definition profile_performance_sql :: "db_type \<Rightarrow> string \<times> column list" where
  "profile_performance_sql db_type =
     (if db_type = Sqlite then
        (''profile_performance'',
         [(''id'', ''INTEGER PRIMARY KEY AUTOINCREMENT''), (''profile_id'', ''INTEGER NOT NULL''),
          (''date'', ''TEXT NOT NULL''), (''stocks_recommended'', ''INTEGER DEFAULT 0''),
          (''stocks_profitable'', ''INTEGER DEFAULT 0''), (''avg_return_pct'', ''REAL DEFAULT 0''),
          (''attribution_breakdown'', ''TEXT''), (''weight_adjustments'', ''TEXT''),
          (''calculated_at'', ''TEXT NOT NULL'')])
      else
        (''profile_performance'',
         [(''id'', ''SERIAL PRIMARY KEY''), (''profile_id'', ''INTEGER NOT NULL''),
          (''date'', ''DATE NOT NULL''), (''stocks_recommended'', ''INTEGER DEFAULT 0''),
          (''stocks_profitable'', ''INTEGER DEFAULT 0''),
          (''avg_return_pct'', ''DECIMAL(10,4) DEFAULT 0''),
          (''attribution_breakdown'', ''JSONB''), (''weight_adjustments'', ''JSONB''),
          (''calculated_at'', ''TIMESTAMP NOT NULL'')]))"

definition create_screener_tables :: "db_type \<Rightarrow> schema \<Rightarrow> schema" where
  "create_screener_tables db_type sch =
     create_table_if_not_exists (profile_performance_sql db_type)
       (create_table_if_not_exists (runs_sql db_type)
         (create_table_if_not_exists (profiles_sql db_type) sch))"

subsection \<open>\<open>init_schema\<close>\<close>

definition init_schema :: "db_type \<Rightarrow> schema \<Rightarrow> schema" where
  "init_schema db_type sch =
     create_screener_tables db_type
       (create_youtube_strategy_tables db_type (create_trading_tables db_type sch))"

subsection \<open>\<open>migrate_database\<close> (\<open>migrate_orchestrator_db.py\<close>)\<close>

text \<open>
  \<open>ALTER TABLE t ADD COLUMN c decl\<close> inside the script's \<open>try\<close>: a duplicate column is
  skipped, a missing table raises and ends the migration with \<open>False\<close> (here \<open>None\<close>).
\<close>

definition add_column :: "string \<Rightarrow> column \<Rightarrow> schema \<Rightarrow> schema option" where
  "add_column name col sch =
     (if name \<notin> set (map fst sch) then None
      else Some (map (\<lambda>t. if fst t = name \<and> fst col \<notin> set (map fst (snd t))
                           then (fst t, snd t @ [col]) else t) sch))"

fun add_columns :: "(string \<times> column) list \<Rightarrow> schema \<Rightarrow> schema option" where
  "add_columns [] sch = Some sch"
| "add_columns ((name, col) # rest) sch =
     (case add_column name col sch of None \<Rightarrow> None | Some sch' \<Rightarrow> add_columns rest sch')"

definition migrate_database :: "schema \<Rightarrow> schema option" where
  "migrate_database sch =
     add_columns
       [(''orders'', (''strategy'', ''TEXT'')),
        (''orders'', (''reason'', ''TEXT'')),
        (''account'', (''total_value'', ''REAL DEFAULT 0'')),
        (''positions'', (''current_price'', ''REAL DEFAULT 0'')),
        (''positions'', (''strategy'', ''TEXT'')),
        (''positions'', (''classification'', ''TEXT'')),
        (''positions'', (''profit_target'', ''REAL DEFAULT 0''))] sch"

subsection \<open>\<open>create_postgres_schema\<close> (\<open>migrate_to_postgres.py\<close>)\<close>

text \<open>
  Phase 1 of the PostgreSQL migration: \<open>init_schema\<close>, then the orchestrator columns by
  \<open>ALTER TABLE t ADD COLUMN IF NOT EXISTS c decl\<close>, each in its own \<open>try\<close> whose
  \<open>except\<close> prints the error and goes on to the next statement.
\<close>

fun add_columns_if_not_exists :: "(string \<times> column) list \<Rightarrow> schema \<Rightarrow> schema" where
  "add_columns_if_not_exists [] sch = sch"
| "add_columns_if_not_exists ((name, col) # rest) sch =
     add_columns_if_not_exists rest
       (case add_column name col sch of None \<Rightarrow> sch | Some sch' \<Rightarrow> sch')"

definition create_postgres_schema :: "schema \<Rightarrow> schema" where
  "create_postgres_schema sch =
     add_columns_if_not_exists
       [(''account'', (''total_value'', ''DECIMAL(15,2) DEFAULT 0'')),
        (''orders'', (''strategy'', ''TEXT'')),
        (''orders'', (''reason'', ''TEXT'')),
        (''positions'', (''current_price'', ''DECIMAL(15,2) DEFAULT 0'')),
        (''positions'', (''strategy'', ''TEXT'')),
        (''positions'', (''classification'', ''TEXT'')),
        (''positions'', (''profit_target'', ''DECIMAL(15,2) DEFAULT 0'')),
        (''positions'', (''stop_loss'', ''DECIMAL(15,2)''))]
       (init_schema Postgresql sch)"

subsection \<open>The stores the schema code creates\<close>

text \<open>
  On SQLite: \<open>init_schema\<close> on an empty file, then the orchestrator migration.  On
  PostgreSQL: \<open>create_postgres_schema\<close> on an empty database.
\<close>

definition ledger_schema :: schema where
  "ledger_schema =
     (case migrate_database (init_schema Sqlite []) of
        None \<Rightarrow> init_schema Sqlite []
      | Some sch \<Rightarrow> sch)"

definition postgres_schema :: schema where
  "postgres_schema = create_postgres_schema []"

subsection \<open>Statements against a schema\<close>

text \<open>
  A statement that names a column the table lacks (or a table that is missing) is
  refused by the database.  An \<open>INSERT\<close> must moreover supply every column declared
  \<open>NOT NULL\<close> without a \<open>DEFAULT\<close>; the declaration is searched for the two keywords.
\<close>

definition has_columns :: "schema \<Rightarrow> string \<Rightarrow> string list \<Rightarrow> bool" where
  "has_columns sch name cols = list_all (\<lambda>c. c \<in> set (columns_of sch name)) cols"






section \<open>Stop-loss monitor (\<open>stop_loss_monitor.py\<close>)\<close>

subsection \<open>The HTTP API the monitor talks to\<close>

text \<open>
  The monitor reads the \<open>positions\<close> table through the database manager and reaches
  everything else through the dashboard's HTTP API, which is a parameter here.
  \<open>GET /positions\<close> answers with a status and a JSON list of \<open>(symbol, currentPrice)\<close>
  entries, or the request raises; one request is made per looked-up symbol.
  \<open>POST /order\<close> takes the order and answers with a status, or raises.
\<close>

datatype get_response = GetOk nat "(string \<times> real option) list" | GetRaised

datatype post_response = PostStatus nat | PostRaised

record order_data =
  od_symbol :: string
  od_side :: string
  od_quantity :: int
  od_order_type :: string

subsection \<open>\<open>get_positions_with_stop_loss\<close>\<close>

text \<open>
  \<open>SELECT symbol, quantity, entry_price, stop_loss FROM positions WHERE stop_loss IS NOT
  NULL AND stop_loss > 0\<close> through \<open>db.execute(..., fetch='all')\<close>, then a list
  comprehension that reads each row by position, \<open>row[0]\<close> to \<open>row[3]\<close>.  The query is
  refused when the table lacks one of the four columns (\<open>sqlite3.OperationalError\<close>, or
  psycopg2's \<open>ProgrammingError\<close>).  On PostgreSQL \<open>execute\<close> uses a \<open>RealDictCursor\<close>,
  whose rows are dictionaries keyed by column name: \<open>row[0]\<close> raises \<open>KeyError\<close> on the
  first row.  The function catches nothing.
\<close>

definition get_positions_with_stop_loss ::
  "db_type \<Rightarrow> schema \<Rightarrow> position_row list \<Rightarrow> py_error + position_row list" where
  "get_positions_with_stop_loss db_type sch tbl =
     (if \<not> has_columns sch ''positions'' [''symbol'', ''quantity'', ''entry_price'', ''stop_loss'']
      then Inl (if db_type = Sqlite then OperationalError else ProgrammingError)
      else
        let rows = filter (\<lambda>p. case p_stop_loss p of None \<Rightarrow> False | Some s \<Rightarrow> s > 0) tbl
        in if db_type = Postgresql \<and> rows \<noteq> [] then Inl KeyError else Inr rows)"

subsection \<open>\<open>get_current_price\<close>\<close>

text \<open>
  The first entry of the answer with the symbol gives the price (a JSON \<open>null\<close> is
  \<open>None\<close>); any other outcome is \<open>None\<close>.
\<close>

definition get_current_price :: "(string \<Rightarrow> get_response) \<Rightarrow> string \<Rightarrow> real option" where
  "get_current_price api_get symbol =
     (case api_get symbol of
        GetRaised \<Rightarrow> None
      | GetOk status_code positions \<Rightarrow>
          if status_code = 200 then
            (case find (\<lambda>pos. fst pos = symbol) positions of
               None \<Rightarrow> None
             | Some pos \<Rightarrow> snd pos)
          else None)"

subsection \<open>\<open>execute_stop_loss_sell\<close>\<close>

text \<open>
  It posts one order with \<open>int(quantity)\<close> shares and returns whether the API answered
  200; the P&L it then prints is computed on \<open>quantity\<close> itself, and the percentage
  divides by \<open>entry_price\<close>: a \<open>ZeroDivisionError\<close> there is caught and turns the answer
  into \<open>False\<close> after the order was posted (as a body that is not JSON would; the caller
  ignores the answer).  The result is the posted order and the answer.
\<close>

definition execute_stop_loss_sell ::
  "(order_data \<Rightarrow> post_response) \<Rightarrow> string \<Rightarrow> real \<Rightarrow> real \<Rightarrow> real \<Rightarrow> real \<Rightarrow> order_data \<times> bool" where
  "execute_stop_loss_sell api_post symbol quantity current_price stop_loss entry_price =
     (let order = \<lparr>od_symbol = symbol, od_side = ''sell'', od_quantity = py_int quantity,
                    od_order_type = ''market''\<rparr>
      in case api_post order of
           PostStatus status_code \<Rightarrow>
             (order, (if status_code = 200 then entry_price \<noteq> 0 else False))
         | PostRaised \<Rightarrow> (order, False))"

subsection \<open>\<open>check_stop_losses\<close>\<close>

text \<open>
  One pass: the positions with a stop-loss are read once, then visited in order.  The
  result is the list of orders posted, with their answers; an exception of the query
  leaves the function (the main loop prints it and sleeps).
\<close>

fun stop_loss_pass ::
  "(string \<Rightarrow> get_response) \<Rightarrow> (order_data \<Rightarrow> post_response) \<Rightarrow> position_row list
     \<Rightarrow> (order_data \<times> bool) list" where
  "stop_loss_pass api_get api_post [] = []"
| "stop_loss_pass api_get api_post (position # rest) =
     (case get_current_price api_get (p_symbol position) of
        None \<Rightarrow> stop_loss_pass api_get api_post rest
      | Some current_price \<Rightarrow>
          (case p_stop_loss position of
             None \<Rightarrow> stop_loss_pass api_get api_post rest
           | Some stop_loss \<Rightarrow>
               if current_price \<le> stop_loss then
                 execute_stop_loss_sell api_post (p_symbol position) (p_quantity position)
                   current_price stop_loss (p_entry_price position)
                 # stop_loss_pass api_get api_post rest
               else stop_loss_pass api_get api_post rest))"

definition check_stop_losses ::
  "db_type \<Rightarrow> schema \<Rightarrow> (string \<Rightarrow> get_response) \<Rightarrow> (order_data \<Rightarrow> post_response)
     \<Rightarrow> position_row list \<Rightarrow> py_error + (order_data \<times> bool) list" where
  "check_stop_losses db_type sch api_get api_post tbl =
     (case get_positions_with_stop_loss db_type sch tbl of
        Inl e \<Rightarrow> Inl e
      | Inr positions \<Rightarrow> Inr (stop_loss_pass api_get api_post positions))"


section \<open>Order placement (\<open>paper_trade_one_candle.py\<close>)\<close>

subsection \<open>Database and connection\<close>




subsection \<open>\<open>get_account_balance\<close>\<close>


subsection \<open>\<open>place_order\<close>\<close>




section \<open>Auxiliary definitions for the proofs\<close>

text \<open>The peak the drawdown loop holds after running over a series from a given peak.\<close>

definition final_peak :: "real \<Rightarrow> real list \<Rightarrow> real" where
  "final_peak p xs = fold (\<lambda>y m. if y > m then y else m) xs p"

text \<open>The stored value the backfill compares with: \<open>order['pnl'] or 0.0\<close>.\<close>

definition stored_pnl :: "order_row \<Rightarrow> real" where
  "stored_pnl r = (case o_pnl r of None \<Rightarrow> 0 | Some v \<Rightarrow> v)"

text \<open>The entries a replay from given open lots appends to \<open>updates\<close>.\<close>

fun new_updates :: "(string \<Rightarrow> lot list) \<Rightarrow> order_row list \<Rightarrow> pnl_update list" where
  "new_updates P [] = []"
| "new_updates P (r # rs) =
     (case match_order P r of
        (None, P') \<Rightarrow> new_updates P' rs
      | (Some (remaining_qty, c), P') \<Rightarrow>
          (if \<bar>c - stored_pnl r\<bar> > 0.001
           then [\<lparr>u_id = o_id r, u_symbol = o_symbol r, u_old_pnl = stored_pnl r,
                  u_new_pnl = c, u_timestamp = o_timestamp r\<rparr>]
           else []) @ new_updates P' rs)"

text \<open>A row after the first update of the list that names its id.\<close>

definition patch :: "pnl_update list \<Rightarrow> order_row \<Rightarrow> order_row" where
  "patch U r = (case find (\<lambda>u. u_id u = o_id r) U of
                  None \<Rightarrow> r | Some u \<Rightarrow> r\<lparr>o_pnl := Some (u_new_pnl u)\<rparr>)"

text \<open>
  Every queue is in ascending order of timestamp, and no lot is younger than an order
  still to come.
\<close>

abbreviation queues_ordered :: "(string \<Rightarrow> lot list) \<Rightarrow> order_row list \<Rightarrow> bool" where
  "queues_ordered P os \<equiv>
     (\<forall>s. sorted (map lot_timestamp (P s))
          \<and> (\<forall>t \<in> set (map lot_timestamp (P s)). \<forall>r \<in> set os. t \<le> o_timestamp r))"


section \<open>Example data\<close>

text \<open>A strategy with five trailing losses and a positive total P&L.\<close>

definition perf_row :: strategy_performance where
  "perf_row = \<lparr>sp_strategy_id = 7, sp_total_trades = 12, sp_winning_trades = 7,
     sp_losing_trades = 5, sp_consecutive_losses = 5, sp_total_pnl = 340,
     sp_win_rate = 7 / 12, sp_profit_factor = 1.8, sp_max_drawdown = 0.12,
     sp_current_drawdown = 0.10, sp_roi_pct = 3.4, sp_last_updated = ''2026-01-05T16:59:46''\<rparr>"

definition tr :: "real \<Rightarrow> trade" where
  "tr p = \<lparr>t_strategy_id = 7, t_symbol = ''TSLA'', t_timestamp = ''2026-01-05'', t_pnl = p\<rparr>"

text \<open>The two order histories of the FIFO examples, one whose sell takes half of what was
  bought, and one whose sell already has a P&L.\<close>

definition mk_order ::
  "int \<Rightarrow> string \<Rightarrow> string \<Rightarrow> real \<Rightarrow> real \<Rightarrow> string \<Rightarrow> real option \<Rightarrow> order_row" where
  "mk_order i symbol side q p ts pnl =
     \<lparr>o_id = i, o_symbol = symbol, o_side = side, o_quantity = q, o_price = p,
      o_timestamp = ts, o_pnl = pnl\<rparr>"

definition fifo_history :: "order_row list" where
  "fifo_history =
     [mk_order 1 ''SPY'' ''buy'' 50 400 ''2026-01-05T09:31:00'' (Some 0),
      mk_order 2 ''SPY'' ''buy'' 50 410 ''2026-01-05T09:45:00'' (Some 0),
      mk_order 3 ''SPY'' ''sell'' 100 430 ''2026-01-05T10:30:00'' (Some 0)]"

definition partial_history :: "order_row list" where
  "partial_history =
     [mk_order 1 ''MSFT'' ''buy'' 100 300 ''2026-01-05T09:31:00'' None,
      mk_order 2 ''MSFT'' ''sell'' 30 320 ''2026-01-05T09:45:00'' None,
      mk_order 3 ''MSFT'' ''sell'' 40 310 ''2026-01-05T10:30:00'' None]"

definition split_history :: "order_row list" where
  "split_history =
     [mk_order 1 ''SPY'' ''buy'' 50 400 ''2026-01-05T09:31:00'' (Some 0),
      mk_order 2 ''SPY'' ''buy'' 50 410 ''2026-01-05T09:45:00'' (Some 0),
      mk_order 3 ''SPY'' ''sell'' 50 430 ''2026-01-05T10:30:00'' (Some 0)]"

definition recorded_history :: "order_row list" where
  "recorded_history =
     [mk_order 1 ''AAPL'' ''buy'' 10 100 ''2026-01-05T09:31:00'' (Some 0),
      mk_order 2 ''AAPL'' ''sell'' 10 110 ''2026-01-05T10:30:00'' (Some 50)]"

text \<open>
  The ledger of the reconciliation example (stored total 10,000, cash 5,000, positions
  worth 34,850), and one whose stored total is zero.
\<close>

definition mk_position :: "string \<Rightarrow> real \<Rightarrow> real \<Rightarrow> real option \<Rightarrow> real option \<Rightarrow> position_row" where
  "mk_position symbol q entry current stop =
     \<lparr>p_symbol = symbol, p_quantity = q, p_entry_price = entry, p_current_price = current,
      p_stop_loss = stop, p_last_updated = ''2024-01-02''\<rparr>"

definition drifted_ledger :: ledger where
  "drifted_ledger =
     \<lparr>db_account = [\<lparr>a_id = 1, a_cash = 5000, a_total_value = Some 10000,
                      a_last_updated = ''2024-01-01''\<rparr>],
      db_positions = [mk_position ''AAPL'' 100 150 (Some 160) None,
                      mk_position ''MSFT'' 50 300 (Some 320) None,
                      mk_position ''GOOGL'' 30 100 (Some 95) None]\<rparr>"

definition zero_stored_ledger :: ledger where
  "zero_stored_ledger =
     \<lparr>db_account = [\<lparr>a_id = 1, a_cash = 100, a_total_value = Some 0,
                      a_last_updated = ''2024-01-01''\<rparr>],
      db_positions = []\<rparr>"

text \<open>
  A quote feed that prices TSLA at 94, an order API that accepts every order, and a
  SQLite store like the one the schema code creates, with a \<open>stop_loss\<close> column added
  to \<open>positions\<close>.
\<close>

definition quote_94 :: "string \<Rightarrow> get_response" where
  "quote_94 symbol = GetOk 200 [(''AAPL'', Some 161), (''TSLA'', Some 94)]"

definition accepting_api :: "order_data \<Rightarrow> post_response" where
  "accepting_api order = PostStatus 200"

definition monitored_schema :: schema where
  "monitored_schema =
     (case add_column ''positions'' (''stop_loss'', ''REAL'') ledger_schema of
        None \<Rightarrow> ledger_schema
      | Some sch \<Rightarrow> sch)"






section \<open>Strategy analytics: properties\<close>

subsection \<open>Drawdown\<close>

lemma drawdown_loop_lower: "m \<le> drawdown_loop m p xs"
proof (induction xs arbitrary: m p)
  case Nil then show ?case by simp
next
  case (Cons x xs)
  have "m \<le> py_max2 m d" for d by (simp add: py_max2_def)
  then show ?case using Cons.IH order_trans by (simp add: Let_def) blast
qed

lemma drawdown_loop_last:
  "xs \<noteq> [] \<Longrightarrow>
   (if final_peak p xs \<noteq> 0 then (final_peak p xs - last xs) / \<bar>final_peak p xs\<bar> else 0)
     \<le> drawdown_loop m p xs"
proof (induction xs arbitrary: m p)
  case Nil then show ?case by simp
next
  case (Cons x xs)
  define peak' where "peak' = (if x > p then x else p)"
  define d where "d = (if peak' \<noteq> 0 then (peak' - x) / \<bar>peak'\<bar> else 0)"
  have step: "drawdown_loop m p (x # xs) = drawdown_loop (py_max2 m d) peak' xs"
    by (simp add: Let_def peak'_def d_def)
  have fp: "final_peak p (x # xs) = final_peak peak' xs"
    by (simp add: final_peak_def peak'_def)
  show ?case
  proof (cases "xs = []")
    case True
    have lhs: "(if final_peak p (x # xs) \<noteq> 0
                then (final_peak p (x # xs) - last (x # xs)) / \<bar>final_peak p (x # xs)\<bar>
                else 0) = d"
    proof -
      have "final_peak p [x] = peak'" by (simp add: final_peak_def peak'_def)
      then show ?thesis using True by (simp add: d_def)
    qed
    have rhs: "drawdown_loop m p (x # xs) = py_max2 m d"
    proof -
      have "drawdown_loop (py_max2 m d) peak' xs = py_max2 m d" using True by simp
      then show ?thesis by (simp only: step)
    qed
    have "d \<le> py_max2 m d" by (simp add: py_max2_def)
    then show ?thesis by (simp only: lhs rhs)
  next
    case False
    then have l: "last (x # xs) = last xs" by simp
    show ?thesis unfolding step fp l by (rule Cons.IH[OF False])
  qed
qed

lemma py_max_final_peak: "xs \<noteq> [] \<Longrightarrow> py_max xs = final_peak (hd xs) xs"
  by (cases xs) (simp_all add: final_peak_def)

lemma final_peak_start: "q \<le> final_peak q zs"
proof (induction zs arbitrary: q)
  case Nil show ?case by (simp add: final_peak_def)
next
  case (Cons z zs)
  show ?case using Cons[of "if z > q then z else q"] by (auto simp: final_peak_def)
qed

lemma final_peak_ge: "x \<in> set xs \<Longrightarrow> x \<le> final_peak p xs"
proof (induction xs arbitrary: p)
  case Nil then show ?case by simp
next
  case (Cons y ys)
  show ?case
  proof (cases "x = y")
    case True
    then show ?thesis
      using final_peak_start[of "if y > p then y else p" ys] by (auto simp: final_peak_def)
  next
    case False
    then show ?thesis using Cons by (auto simp: final_peak_def)
  qed
qed

lemma cumulative_pnl_Nil: "(cumulative_pnl r ts = []) = (ts = [])"
  by (cases ts) simp_all

text \<open>
  C10.  For a non-empty list of trades the current drawdown is at most the maximum
  drawdown and both are non-negative; for the empty list the result is \<open>(0.0, 0.0)\<close>.
  (The pair is \<open>(max_drawdown, current_drawdown)\<close>.)
\<close>

theorem calculate_drawdown_bounds:
  "(trades \<noteq> [] \<longrightarrow>
      snd (calculate_drawdown trades) \<le> fst (calculate_drawdown trades)
      \<and> 0 \<le> fst (calculate_drawdown trades) \<and> 0 \<le> snd (calculate_drawdown trades))
   \<and> calculate_drawdown [] = (0, 0)"
proof -
  have empty: "calculate_drawdown [] = (0, 0)" by (simp add: calculate_drawdown_def)
  have nonempty: "snd (calculate_drawdown trades) \<le> fst (calculate_drawdown trades)
      \<and> 0 \<le> fst (calculate_drawdown trades) \<and> 0 \<le> snd (calculate_drawdown trades)"
    if ne: "trades \<noteq> []"
  proof -
    define cum where "cum = cumulative_pnl 0 trades"
    have cne: "cum \<noteq> []" using ne by (simp add: cum_def cumulative_pnl_Nil)
    define P where "P = final_peak (hd cum) cum"
    define cd where "cd = (if P \<noteq> 0 then (P - last cum) / \<bar>P\<bar> else 0)"
    have res: "calculate_drawdown trades = (drawdown_loop 0 (hd cum) cum, cd)"
      using ne cne by (simp add: calculate_drawdown_def Let_def cum_def[symmetric]
          py_max_final_peak cd_def P_def)
    have le: "cd \<le> drawdown_loop 0 (hd cum) cum"
      unfolding cd_def P_def by (rule drawdown_loop_last[OF cne])
    have "last cum \<le> P" unfolding P_def using cne by (intro final_peak_ge) simp
    then have cd0: "0 \<le> cd" by (simp add: cd_def)
    show ?thesis using res le cd0 drawdown_loop_lower[of 0 "hd cum" cum] by simp
  qed
  show ?thesis using empty nonempty by blast
qed

theorem calculate_drawdown_bounds_witness:
  "[tr 100, tr (- 50), tr 20] \<noteq> []
   \<and> calculate_drawdown [tr 100, tr (- 50), tr 20] = (1 / 2, 3 / 10)
   \<and> snd (calculate_drawdown [tr 100, tr (- 50), tr 20])
       \<le> fst (calculate_drawdown [tr 100, tr (- 50), tr 20])"
proof -
  have v: "calculate_drawdown [tr 100, tr (- 50), tr 20] = (1 / 2, 3 / 10)"
    by (simp add: calculate_drawdown_def tr_def py_max2_def Let_def)
  show ?thesis
    using calculate_drawdown_bounds [of "[tr 100, tr (- 50), tr 20]"] v by simp
qed

subsection \<open>Optimization triggers\<close>

text \<open>
  C7.  For a strategy with a performance row, \<open>should_optimize\<close> is true exactly when
  \<open>consecutive_losses \<ge> 5\<close>, or \<open>total_trades \<ge> 20\<close> and \<open>win_rate < 0.40\<close>, or
  \<open>current_drawdown > 0.15\<close>, or \<open>total_trades \<ge> 20\<close> and \<open>total_pnl < 0\<close>; and with
  \<open>consecutive_losses \<ge> 5\<close> the answer is true with the reason "5 consecutive losses",
  whatever the total P&L.
\<close>

theorem check_optimization_triggers_iff:
  "get_performance tbl strategy_id = Some perf \<Longrightarrow>
   (fst (check_optimization_triggers fmt_pct fmt_2f tbl strategy_id) \<longleftrightarrow>
      (sp_consecutive_losses perf \<ge> 5
       \<or> (sp_total_trades perf \<ge> 20 \<and> sp_win_rate perf < 0.40)
       \<or> sp_current_drawdown perf > 0.15
       \<or> (sp_total_trades perf \<ge> 20 \<and> sp_total_pnl perf < 0)))
   \<and> (sp_consecutive_losses perf \<ge> 5 \<longrightarrow>
        check_optimization_triggers fmt_pct fmt_2f tbl strategy_id = (True, ''5 consecutive losses''))"
  by (simp add: check_optimization_triggers_def)

theorem check_optimization_triggers_iff_witness:
  "get_performance [perf_row] 7 = Some perf_row
   \<and> sp_consecutive_losses perf_row \<ge> 5 \<and> sp_total_pnl perf_row > 0
   \<and> check_optimization_triggers (\<lambda>x. ''?'') (\<lambda>x. ''?'') [perf_row] 7
       = (True, ''5 consecutive losses'')"
proof -
  have h: "get_performance [perf_row] 7 = Some perf_row"
    by (simp add: get_performance_def perf_row_def)
  show ?thesis
    using h check_optimization_triggers_iff [OF h, of "\<lambda>x. ''?''" "\<lambda>x. ''?''"]
    by (simp add: perf_row_def)
qed


section \<open>FIFO P&L backfill: properties\<close>

subsection \<open>The matching loop realizes lots oldest first\<close>

lemma sell_loop_fifo_realize:
  "sell_loop P Q acc lots =
     (fst (sell_loop P Q acc lots), acc + fst (spec_fifo_realize P Q lots), snd (spec_fifo_realize P Q lots))"
proof (induction lots arbitrary: Q acc)
  case Nil
  show ?case by simp
next
  case (Cons l lots)
  show ?case
  proof (cases "0 < Q \<and> lot_quantity l \<le> Q")
    case True
    then show ?thesis
      using Cons.IH[of "Q - lot_quantity l" "acc + (P - lot_price l) * lot_quantity l"]
      by (simp add: case_prod_unfold algebra_simps)
  next
    case False
    then show ?thesis by auto
  qed
qed

lemma select_fifo_history: "select_orders fifo_history = fifo_history"
  by (simp add: select_orders_def fifo_history_def mk_order_def)

lemma select_partial_history: "select_orders partial_history = partial_history"
  by (simp add: select_orders_def partial_history_def mk_order_def)

lemma select_split_history: "select_orders split_history = split_history"
  by (simp add: select_orders_def split_history_def mk_order_def)

lemma select_recorded_history: "select_orders recorded_history = recorded_history"
  by (simp add: select_orders_def recorded_history_def mk_order_def)

lemmas replay_defs =
  mk_order_def process_orders_def process_order_def match_order_def initial_state_def
  py_upper_def upper_char_def

lemma match_order_sell:
  assumes "py_upper (o_side ord) = ''SELL''"
  shows "map_option snd (fst (match_order positions ord))
        = Some (fst (spec_fifo_realize (o_price ord) (o_quantity ord) (positions (o_symbol ord))))
      \<and> snd (match_order positions ord)
        = positions(o_symbol ord :=
            snd (spec_fifo_realize (o_price ord) (o_quantity ord) (positions (o_symbol ord))))"
proof -
  obtain rem c lots where l:
    "sell_loop (o_price ord) (o_quantity ord) 0 (positions (o_symbol ord)) = (rem, c, lots)"
    by (cases "sell_loop (o_price ord) (o_quantity ord) 0 (positions (o_symbol ord))")
  define F where "F = spec_fifo_realize (o_price ord) (o_quantity ord) (positions (o_symbol ord))"
  have "(rem, c, lots) = (fst (rem, c, lots), 0 + fst F, snd F)"
    using sell_loop_fifo_realize[of "o_price ord" "o_quantity ord" 0 "positions (o_symbol ord)"]
    unfolding l F_def .
  then have "F = (c, lots)" by (cases F) simp
  then have "c = fst F" and "lots = snd F" by simp_all
  then have "c = fst (spec_fifo_realize (o_price ord) (o_quantity ord) (positions (o_symbol ord)))"
    and "lots = snd (spec_fifo_realize (o_price ord) (o_quantity ord) (positions (o_symbol ord)))"
    by (simp_all only: F_def)
  then show ?thesis using assms l by (simp add: match_order_def Let_def case_prod_unfold)
qed

lemma match_order_buy:
  assumes "py_upper (o_side ord) = ''BUY''"
  shows "match_order positions ord =
     (None, positions(o_symbol ord := positions (o_symbol ord) @
        [\<lparr>lot_price = o_price ord, lot_quantity = o_quantity ord,
          lot_timestamp = o_timestamp ord\<rparr>]))"
  using assms by (simp add: match_order_def Let_def)

lemma match_order_other:
  assumes "py_upper (o_side ord) \<noteq> ''BUY''" "py_upper (o_side ord) \<noteq> ''SELL''"
  shows "match_order positions ord = (None, positions)"
  using assms by (simp add: match_order_def Let_def)

lemma calculated_pnls_spec: "calculated_pnls positions history = spec_fifo_replay positions history"
proof (induction history arbitrary: positions)
  case Nil show ?case by simp
next
  case (Cons ord history)
  consider (buy) "py_upper (o_side ord) = ''BUY''"
    | (sell) "py_upper (o_side ord) \<noteq> ''BUY''" "py_upper (o_side ord) = ''SELL''"
    | (other) "py_upper (o_side ord) \<noteq> ''BUY''" "py_upper (o_side ord) \<noteq> ''SELL''" by blast
  then show ?case
  proof cases
    case buy
    then show ?thesis using Cons.IH by (simp add: match_order_buy)
  next
    case sell
    obtain res P' where m: "match_order positions ord = (res, P')"
      by (cases "match_order positions ord")
    from match_order_sell[OF sell(2), of positions] m
    obtain rem where
      "res = Some (rem, fst (spec_fifo_realize (o_price ord) (o_quantity ord)
                               (positions (o_symbol ord))))"
      and "P' = positions(o_symbol ord :=
                  snd (spec_fifo_realize (o_price ord) (o_quantity ord) (positions (o_symbol ord))))"
      by (cases res) auto
    then show ?thesis using sell m Cons.IH by (simp add: case_prod_unfold fun_upd_def)
  next
    case other
    then show ?thesis using Cons.IH by (simp add: match_order_other)
  qed
qed

lemma spec_fifo_realize_suffix:
  "\<exists>k. map lot_timestamp (snd (spec_fifo_realize P Q lots)) = drop k (map lot_timestamp lots)"
proof (induction lots arbitrary: Q)
  case Nil show ?case by simp
next
  case (Cons l lots)
  consider (stop) "Q \<le> 0" | (whole) "\<not> Q \<le> 0" "lot_quantity l \<le> Q"
    | (part) "\<not> Q \<le> 0" "\<not> lot_quantity l \<le> Q"
    by blast
  then show ?case
  proof cases
    case stop
    then have "map lot_timestamp (snd (spec_fifo_realize P Q (l # lots)))
                 = drop 0 (map lot_timestamp (l # lots))"
      by simp
    then show ?thesis by blast
  next
    case whole
    obtain k where "map lot_timestamp (snd (spec_fifo_realize P (Q - lot_quantity l) lots))
                      = drop k (map lot_timestamp lots)"
      using Cons.IH by blast
    then have "map lot_timestamp (snd (spec_fifo_realize P Q (l # lots)))
                 = drop (Suc k) (map lot_timestamp (l # lots))"
      using whole by (simp add: case_prod_unfold)
    then show ?thesis by blast
  next
    case part
    then have "map lot_timestamp (snd (spec_fifo_realize P Q (l # lots)))
                 = drop 0 (map lot_timestamp (l # lots))"
      by simp
    then show ?thesis by blast
  qed
qed

lemma match_order_ordered:
  assumes inv: "queues_ordered P (ord # os)" and srt: "sorted (map o_timestamp (ord # os))"
  shows "queues_ordered (snd (match_order P ord)) os"
proof -
  consider (buy) "py_upper (o_side ord) = ''BUY''"
    | (sell) "py_upper (o_side ord) = ''SELL''"
    | (other) "py_upper (o_side ord) \<noteq> ''BUY''" "py_upper (o_side ord) \<noteq> ''SELL''" by blast
  then show ?thesis
  proof cases
    case buy
    have a: "sorted (map lot_timestamp (P (o_symbol ord)) @ [o_timestamp ord])"
      using inv by (auto simp: sorted_append)
    have b: "\<forall>r \<in> set os. o_timestamp ord \<le> o_timestamp r" using srt by simp
    show ?thesis
      unfolding match_order_buy[OF buy]
      using inv a b by auto
  next
    case sell
    obtain k where k:
      "map lot_timestamp (snd (spec_fifo_realize (o_price ord) (o_quantity ord) (P (o_symbol ord))))
        = drop k (map lot_timestamp (P (o_symbol ord)))"
      using spec_fifo_realize_suffix by blast
    have s: "sorted (drop k (map lot_timestamp (P (o_symbol ord))))"
      using inv by simp
    have sub: "set (drop k (map lot_timestamp (P (o_symbol ord))))
                 \<subseteq> set (map lot_timestamp (P (o_symbol ord)))"
      by (rule set_drop_subset)
    have P': "snd (match_order P ord) = P(o_symbol ord :=
            snd (spec_fifo_realize (o_price ord) (o_quantity ord) (P (o_symbol ord))))"
      using match_order_sell[OF sell] by blast
    show ?thesis
      unfolding P'
    proof (intro allI conjI ballI)
      fix s
      show "sorted (map lot_timestamp ((P(o_symbol ord :=
              snd (spec_fifo_realize (o_price ord) (o_quantity ord) (P (o_symbol ord))))) s))"
        using inv s k by (cases "s = o_symbol ord") simp_all
    next
      fix s t r
      assume t: "t \<in> set (map lot_timestamp ((P(o_symbol ord :=
              snd (spec_fifo_realize (o_price ord) (o_quantity ord) (P (o_symbol ord))))) s))"
        and r: "r \<in> set os"
      have "t \<in> set (map lot_timestamp (P s))"
      proof (cases "s = o_symbol ord")
        case True
        then show ?thesis using t k sub by auto
      next
        case False
        then show ?thesis using t by simp
      qed
      then show "t \<le> o_timestamp r" using inv r by auto
    qed
  next
    case other
    show ?thesis unfolding match_order_other[OF other] using inv by auto
  qed
qed

lemma process_order_positions:
  "bs_positions (process_order st r) = snd (match_order (bs_positions st) r)"
  by (simp add: process_order_def split: prod.splits option.splits)

lemma process_orders_ordered:
  "queues_ordered (bs_positions st) os \<Longrightarrow> sorted (map o_timestamp os) \<Longrightarrow>
   queues_ordered (bs_positions (process_orders st os)) []"
proof (induction os arbitrary: st)
  case Nil
  then show ?case by (simp add: process_orders_def)
next
  case (Cons ord os)
  have "queues_ordered (bs_positions (process_order st ord)) os"
    unfolding process_order_positions using Cons.prems by (rule match_order_ordered)
  moreover have "sorted (map o_timestamp os)" using Cons.prems(2) by simp
  ultimately have "queues_ordered (bs_positions (process_orders (process_order st ord) os)) []"
    by (rule Cons.IH)
  then show ?case by (simp add: process_orders_def)
qed

lemma replay_prefix_sorted:
  "sorted (map lot_timestamp
     (bs_positions (process_orders initial_state (take n (select_orders tbl))) symbol))"
proof -
  have s: "sorted (map o_timestamp (take n (select_orders tbl)))"
    by (simp add: select_orders_def take_map[symmetric])
  have i: "queues_ordered (bs_positions initial_state) (take n (select_orders tbl))"
    by (simp add: initial_state_def)
  show ?thesis using process_orders_ordered[OF i s] by simp
qed

text \<open>
  C1.  Over a history replayed in ascending order of timestamp the loop is the spec's
  FIFO engine.  A buy puts its lot at the back of its symbol's queue, so at every point
  of the replay each queue is in ascending order of timestamp, the oldest open lot first.
  A sell of quantity \<open>Q\<close> at price \<open>P\<close> computes the P&L and leaves the lots that
  \<open>spec_fifo_realize\<close> describes for that queue: from the front, a lot of at most the
  remaining quantity contributes \<open>(P - unit_cost) * lot.quantity\<close> and is removed, a
  larger one contributes \<open>(P - unit_cost) * remaining\<close> and is shrunk by it; the other
  symbols' lots are untouched.  The values computed over a whole history are those of
  \<open>spec_fifo_replay\<close>.  For buy 50@400, buy 50@410, sell 100@430 the sell realizes 2500;
  for buy 100@300, sell 30@320, sell 40@310 the sells realize 600 and 400 and a lot of 30
  at 300 stays open; for buy 50@400, buy 50@410, sell 50@430 the sell realizes 1500
  against the older lot and the lot at 410 stays open.
\<close>

theorem sell_realizes_fifo:
  "(py_upper (o_side sell) = ''SELL'' \<longrightarrow>
      map_option snd (fst (match_order positions sell))
        = Some (fst (spec_fifo_realize (o_price sell) (o_quantity sell) (positions (o_symbol sell))))
      \<and> snd (match_order positions sell)
        = positions(o_symbol sell :=
            snd (spec_fifo_realize (o_price sell) (o_quantity sell) (positions (o_symbol sell)))))
   \<and> (py_upper (o_side buy) = ''BUY'' \<longrightarrow>
        match_order positions buy =
          (None, positions(o_symbol buy := positions (o_symbol buy) @
             [\<lparr>lot_price = o_price buy, lot_quantity = o_quantity buy,
               lot_timestamp = o_timestamp buy\<rparr>])))
   \<and> calculated_pnls positions history = spec_fifo_replay positions history
   \<and> sorted (map lot_timestamp
        (bs_positions (process_orders initial_state (take n (select_orders tbl))) symbol))
   \<and> bs_updates (process_orders initial_state (select_orders fifo_history))
       = [\<lparr>u_id = 3, u_symbol = ''SPY'', u_old_pnl = 0, u_new_pnl = 2500,
           u_timestamp = ''2026-01-05T10:30:00''\<rparr>]
   \<and> calculated_pnls (\<lambda>symbol. []) (select_orders partial_history) = [(2, 600), (3, 400)]
   \<and> bs_positions (process_orders initial_state (select_orders partial_history)) ''MSFT''
       = [\<lparr>lot_price = 300, lot_quantity = 30, lot_timestamp = ''2026-01-05T09:31:00''\<rparr>]
   \<and> calculated_pnls (\<lambda>symbol. []) (select_orders split_history) = [(3, 1500)]
   \<and> bs_positions (process_orders initial_state (select_orders split_history)) ''SPY''
       = [\<lparr>lot_price = 410, lot_quantity = 50, lot_timestamp = ''2026-01-05T09:45:00''\<rparr>]"
proof -
  have e1: "bs_updates (process_orders initial_state (select_orders fifo_history))
       = [\<lparr>u_id = 3, u_symbol = ''SPY'', u_old_pnl = 0, u_new_pnl = 2500,
           u_timestamp = ''2026-01-05T10:30:00''\<rparr>]"
    unfolding select_fifo_history by (simp add: fifo_history_def replay_defs)
  have e2: "calculated_pnls (\<lambda>symbol. []) (select_orders partial_history) = [(2, 600), (3, 400)]"
    unfolding select_partial_history by (simp add: partial_history_def replay_defs)
  have e3: "bs_positions (process_orders initial_state (select_orders partial_history)) ''MSFT''
       = [\<lparr>lot_price = 300, lot_quantity = 30, lot_timestamp = ''2026-01-05T09:31:00''\<rparr>]"
    unfolding select_partial_history by (simp add: partial_history_def replay_defs)
  have e4: "calculated_pnls (\<lambda>symbol. []) (select_orders split_history) = [(3, 1500)]"
    unfolding select_split_history by (simp add: split_history_def replay_defs)
  have e5: "bs_positions (process_orders initial_state (select_orders split_history)) ''SPY''
       = [\<lparr>lot_price = 410, lot_quantity = 50, lot_timestamp = ''2026-01-05T09:45:00''\<rparr>]"
    unfolding select_split_history by (simp add: split_history_def replay_defs)
  show ?thesis
    using match_order_sell[of sell positions] match_order_buy[of buy positions]
      calculated_pnls_spec[of positions history] replay_prefix_sorted[of n tbl symbol]
      e1 e2 e3 e4 e5
    by blast
qed

theorem sell_realizes_fifo_witness:
  "py_upper (o_side (mk_order 3 ''SPY'' ''sell'' 50 430 ''2026-01-05T10:30:00'' (Some 0))) = ''SELL''
   \<and> py_upper (o_side (mk_order 2 ''SPY'' ''buy'' 50 410 ''2026-01-05T09:45:00'' (Some 0))) = ''BUY''
   \<and> map_option snd (fst (match_order
        (\<lambda>symbol. if symbol = ''SPY''
           then [\<lparr>lot_price = 400, lot_quantity = 50, lot_timestamp = ''2026-01-05T09:31:00''\<rparr>,
                 \<lparr>lot_price = 410, lot_quantity = 50, lot_timestamp = ''2026-01-05T09:45:00''\<rparr>]
           else [])
        (mk_order 3 ''SPY'' ''sell'' 50 430 ''2026-01-05T10:30:00'' (Some 0)))) = Some 1500
   \<and> snd (match_order
        (\<lambda>symbol. if symbol = ''SPY''
           then [\<lparr>lot_price = 400, lot_quantity = 50, lot_timestamp = ''2026-01-05T09:31:00''\<rparr>,
                 \<lparr>lot_price = 410, lot_quantity = 50, lot_timestamp = ''2026-01-05T09:45:00''\<rparr>]
           else [])
        (mk_order 3 ''SPY'' ''sell'' 50 430 ''2026-01-05T10:30:00'' (Some 0))) ''SPY''
       = [\<lparr>lot_price = 410, lot_quantity = 50, lot_timestamp = ''2026-01-05T09:45:00''\<rparr>]
   \<and> snd (match_order
        (\<lambda>symbol. if symbol = ''SPY''
           then [\<lparr>lot_price = 400, lot_quantity = 50, lot_timestamp = ''2026-01-05T09:31:00''\<rparr>,
                 \<lparr>lot_price = 410, lot_quantity = 50, lot_timestamp = ''2026-01-05T09:45:00''\<rparr>]
           else [])
        (mk_order 2 ''SPY'' ''buy'' 50 410 ''2026-01-05T09:45:00'' (Some 0))) ''SPY''
       = [\<lparr>lot_price = 400, lot_quantity = 50, lot_timestamp = ''2026-01-05T09:31:00''\<rparr>,
          \<lparr>lot_price = 410, lot_quantity = 50, lot_timestamp = ''2026-01-05T09:45:00''\<rparr>,
          \<lparr>lot_price = 410, lot_quantity = 50, lot_timestamp = ''2026-01-05T09:45:00''\<rparr>]"
  using sell_realizes_fifo
    [where sell = "mk_order 3 ''SPY'' ''sell'' 50 430 ''2026-01-05T10:30:00'' (Some 0)"
       and buy = "mk_order 2 ''SPY'' ''buy'' 50 410 ''2026-01-05T09:45:00'' (Some 0)"
       and positions = "\<lambda>symbol. if symbol = ''SPY''
           then [\<lparr>lot_price = 400, lot_quantity = 50, lot_timestamp = ''2026-01-05T09:31:00''\<rparr>,
                 \<lparr>lot_price = 410, lot_quantity = 50, lot_timestamp = ''2026-01-05T09:45:00''\<rparr>]
           else []"
       and history = "[]" and n = 0 and tbl = "[]" and symbol = "''SPY''"]
  by (simp add: mk_order_def py_upper_def upper_char_def)

subsection \<open>What the backfill overwrites\<close>

text \<open>
  C5.  On a history whose sell already carries a realized P&L of 50 where FIFO matching
  gives 100, the applied backfill overwrites the 50: the update is queued whenever the
  two values differ by more than 0.001, whatever the stored one is.
\<close>

theorem backfill_overwrites_recorded_pnl:
  "fst (backfill_pnl recorded_history False)
     = [mk_order 1 ''AAPL'' ''buy'' 10 100 ''2026-01-05T09:31:00'' (Some 0),
        mk_order 2 ''AAPL'' ''sell'' 10 110 ''2026-01-05T10:30:00'' (Some 100)]"
  unfolding backfill_pnl_def select_recorded_history
  by (simp add: recorded_history_def replay_defs)

subsection \<open>A second run finds nothing to update\<close>

lemma match_order_pnl: "match_order P (r\<lparr>o_pnl := x\<rparr>) = match_order P r"
  by (simp add: match_order_def)

lemma patch_id: "o_id (patch U r) = o_id r"
  by (simp add: patch_def split: option.splits)

lemma patch_timestamp: "o_timestamp (patch U r) = o_timestamp r"
  by (simp add: patch_def split: option.splits)

lemma patch_match: "match_order P (patch U r) = match_order P r"
  by (simp add: patch_def match_order_pnl split: option.splits)

lemma process_order_updates:
  "bs_updates (process_order st r) = bs_updates st @ new_updates (bs_positions st) [r]"
  by (simp add: process_order_def stored_pnl_def split: prod.splits option.splits)

lemma new_updates_Cons:
  "new_updates P (r # rs) = new_updates P [r] @ new_updates (snd (match_order P r)) rs"
  by (simp split: prod.splits option.splits)

lemma process_orders_updates:
  "bs_updates (process_orders st os) = bs_updates st @ new_updates (bs_positions st) os"
proof (induction os arbitrary: st)
  case Nil
  show ?case by (simp add: process_orders_def)
next
  case (Cons r rs)
  have "bs_updates (process_orders st (r # rs)) = bs_updates (process_orders (process_order st r) rs)"
    by (simp add: process_orders_def)
  also have "\<dots> = bs_updates (process_order st r) @ new_updates (bs_positions (process_order st r)) rs"
    by (rule Cons.IH)
  also have "\<dots> = bs_updates st @ new_updates (bs_positions st) (r # rs)"
    by (simp only: process_order_updates process_order_positions new_updates_Cons[of _ r rs] append_assoc)
  finally show ?case .
qed

lemma new_updates_single: "u \<in> set (new_updates P [r]) \<Longrightarrow> u_id u = o_id r"
  by (auto split: prod.splits option.splits if_splits)

lemma new_updates_ids: "u \<in> set (new_updates P os) \<Longrightarrow> u_id u \<in> o_id ` set os"
proof (induction os arbitrary: P)
  case Nil then show ?case by simp
next
  case (Cons r rs)
  from Cons.prems have "u \<in> set (new_updates P [r]) \<or> u \<in> set (new_updates (snd (match_order P r)) rs)"
    by (simp only: new_updates_Cons[of P r rs] set_append Un_iff)
  then show ?case
  proof
    assume "u \<in> set (new_updates P [r])"
    then show ?thesis by (simp add: new_updates_single)
  next
    assume "u \<in> set (new_updates (snd (match_order P r)) rs)"
    then show ?thesis using Cons.IH by simp
  qed
qed

lemma new_updates_distinct: "distinct (map o_id os) \<Longrightarrow> distinct (map u_id (new_updates P os))"
proof (induction os arbitrary: P)
  case Nil then show ?case by simp
next
  case (Cons r rs)
  have d1: "distinct (map u_id (new_updates P [r]))"
    by (simp split: prod.splits option.splits)
  have d2: "distinct (map u_id (new_updates (snd (match_order P r)) rs))"
    using Cons by simp
  have "u_id u \<noteq> u_id v"
    if "u \<in> set (new_updates P [r])" "v \<in> set (new_updates (snd (match_order P r)) rs)" for u v
    using that Cons.prems new_updates_single[of u P r] new_updates_ids[of v "snd (match_order P r)" rs]
    by auto
  then show ?case
    using d1 d2 by (simp only: new_updates_Cons[of P r rs] map_append distinct_append) auto
qed

lemma apply_updates_patch:
  "distinct (map u_id U) \<Longrightarrow> apply_updates U tbl = map (patch U) tbl"
proof (induction U arbitrary: tbl)
  case Nil
  show ?case by (simp add: patch_def)
next
  case (Cons u us)
  have nf: "find (\<lambda>v. u_id v = u_id u) us = None"
  proof -
    have "u_id u \<notin> u_id ` set us" using Cons.prems by simp
    then have "\<forall>v \<in> set us. u_id v \<noteq> u_id u" by (metis imageI)
    then show ?thesis by (simp add: find_None_iff)
  qed
  have "patch us (if o_id r = u_id u then r\<lparr>o_pnl := Some (u_new_pnl u)\<rparr> else r) = patch (u # us) r" for r
    using nf by (auto simp: patch_def split: option.splits)
  then show ?case using Cons by (simp add: o_def)
qed

lemma find_append_None:
  "find Q xs = None \<Longrightarrow> find Q (xs @ ys) = find Q ys"
  by (induction xs) (auto split: if_splits)

lemma rerun_no_updates:
  "distinct (map o_id os) \<Longrightarrow> (\<forall>u \<in> set Upre. u_id u \<notin> o_id ` set os) \<Longrightarrow>
   new_updates P (map (patch (Upre @ new_updates P os)) os) = []"
proof (induction os arbitrary: P Upre)
  case Nil
  show ?case by simp
next
  case (Cons r rs)
  obtain res P' where m: "match_order P r = (res, P')" by (cases "match_order P r")
  define head where "head = new_updates P [r]"
  have nu: "new_updates P (r # rs) = head @ new_updates P' rs"
    using new_updates_Cons[of P r rs] m by (simp add: head_def)
  define U where "U = Upre @ head @ new_updates P' rs"
  have pre_none: "find (\<lambda>u. u_id u = o_id r) Upre = None"
    using Cons.prems(2) by (auto simp: find_None_iff)
  have tail_none: "find (\<lambda>u. u_id u = o_id r) (new_updates P' rs) = None"
    using Cons.prems(1) by (auto simp: find_None_iff dest!: new_updates_ids)
  have head_ids: "\<forall>u \<in> set head. u_id u = o_id r"
    using m by (auto simp: head_def split: option.splits if_splits)
  have disj: "\<forall>u \<in> set (Upre @ head). u_id u \<notin> o_id ` set rs"
    using Cons.prems head_ids by auto
  have dist: "distinct (map o_id rs)" using Cons.prems(1) by simp
  have IH: "new_updates P' (map (patch U) rs) = []"
    using Cons.IH[OF dist disj, of P'] by (simp add: U_def)
  have first: "new_updates P [patch U r] = []"
  proof (cases res)
    case None
    then show ?thesis using m by (simp add: patch_match)
  next
    case (Some rc)
    obtain rem c where rc: "rc = (rem, c)" by (cases rc)
    show ?thesis
    proof (cases "\<bar>c - stored_pnl r\<bar> > 0.001")
      case True
      then have "head = [\<lparr>u_id = o_id r, u_symbol = o_symbol r, u_old_pnl = stored_pnl r,
                  u_new_pnl = c, u_timestamp = o_timestamp r\<rparr>]"
        using m Some rc by (simp add: head_def)
      then have "patch U r = r\<lparr>o_pnl := Some c\<rparr>"
        using pre_none by (simp add: patch_def U_def find_append_None)
      then show ?thesis using m Some rc by (simp add: match_order_pnl stored_pnl_def)
    next
      case False
      then have "head = []" using m Some rc by (simp add: head_def)
      then have "patch U r = r"
        using pre_none tail_none by (simp add: patch_def U_def find_append_None)
      then show ?thesis using m Some rc False by simp
    qed
  qed
  have "new_updates P (map (patch U) (r # rs))
        = new_updates P [patch U r] @ new_updates (snd (match_order P (patch U r))) (map (patch U) rs)"
    using new_updates_Cons[of P "patch U r" "map (patch U) rs"] by simp
  also have "\<dots> = []" using first IH m by (simp add: patch_match)
  finally have z: "new_updates P (map (patch U) (r # rs)) = []" .
  have "Upre @ new_updates P (r # rs) = U" by (simp only: nu U_def)
  then show ?case using z by (simp only:)
qed

lemma calculated_pnls_patch: "calculated_pnls P (map (patch U) os) = calculated_pnls P os"
  by (induction os arbitrary: P) (simp_all add: patch_match patch_id split: prod.splits option.splits)

lemma insort_key_map:
  "(\<And>x. k (f x) = k x) \<Longrightarrow> insort_key k (f x) (map f xs) = map f (insort_key k x xs)"
  by (induction xs) simp_all

lemma sort_key_map_commute:
  "(\<And>x. k (f x) = k x) \<Longrightarrow> sort_key k (map f xs) = map f (sort_key k xs)"
  by (induction xs) (simp_all add: insort_key_map)

lemma select_orders_patch: "select_orders (map (patch U) tbl) = map (patch U) (select_orders tbl)"
  unfolding select_orders_def by (rule sort_key_map_commute) (rule patch_timestamp)

lemma select_orders_distinct: "distinct (map o_id tbl) \<Longrightarrow> distinct (map o_id (select_orders tbl))"
  by (simp add: select_orders_def distinct_map)

lemma patch_Nil: "map (patch []) tbl = tbl"
  by (induction tbl) (simp_all add: patch_def)

lemma backfill_pnl_table:
  assumes "distinct (map o_id tbl)"
  shows "fst (backfill_pnl tbl False)
         = map (patch (new_updates (\<lambda>s. []) (select_orders tbl))) tbl"
proof -
  let ?U = "new_updates (\<lambda>s. []) (select_orders tbl)"
  have U: "bs_updates (process_orders initial_state (select_orders tbl)) = ?U"
    by (simp add: process_orders_updates initial_state_def)
  have d: "distinct (map u_id ?U)"
    by (rule new_updates_distinct) (rule select_orders_distinct[OF assms])
  show ?thesis
  proof (cases "?U = []")
    case True
    then show ?thesis using U by (simp add: backfill_pnl_def Let_def patch_Nil)
  next
    case False
    then show ?thesis using U apply_updates_patch[OF d] by (simp add: backfill_pnl_def Let_def)
  qed
qed

text \<open>
  C6.  With order ids unique, replaying the history after an applied backfill computes
  the same P&L for every sell as the first replay did (the computation does not read the
  stored \<open>pnl\<close>), and a second run, dry or applied, queues no update.
\<close>

theorem backfill_idempotent:
  assumes "distinct (map o_id tbl)"
  shows "calculated_pnls (\<lambda>symbol. []) (select_orders (fst (backfill_pnl tbl False)))
           = calculated_pnls (\<lambda>symbol. []) (select_orders tbl)
         \<and> bs_updates (snd (backfill_pnl (fst (backfill_pnl tbl False)) dry_run)) = []"
proof -
  let ?os = "select_orders tbl"
  let ?U = "new_updates (\<lambda>s. []) ?os"
  have t: "select_orders (fst (backfill_pnl tbl False)) = map (patch ?U) ?os"
    by (simp add: backfill_pnl_table[OF assms] select_orders_patch)
  have a: "calculated_pnls (\<lambda>symbol. []) (select_orders (fst (backfill_pnl tbl False)))
           = calculated_pnls (\<lambda>symbol. []) ?os"
    by (simp add: t calculated_pnls_patch)
  have "new_updates (\<lambda>s. []) (map (patch ([] @ ?U)) ?os) = []"
    by (rule rerun_no_updates) (simp_all add: select_orders_distinct[OF assms])
  then have n: "new_updates (\<lambda>s. []) (select_orders (fst (backfill_pnl tbl False))) = []"
    by (simp add: t)
  have "bs_updates (snd (backfill_pnl tbl' dry_run)) = new_updates (\<lambda>s. []) (select_orders tbl')" for tbl'
    by (simp add: backfill_pnl_def Let_def process_orders_updates initial_state_def)
  then show ?thesis using a n by simp
qed

theorem backfill_idempotent_witness:
  "distinct (map o_id partial_history)
   \<and> calculated_pnls (\<lambda>symbol. []) (select_orders (fst (backfill_pnl partial_history False)))
       = [(2, 600), (3, 400)]
   \<and> bs_updates (snd (backfill_pnl (fst (backfill_pnl partial_history False)) True)) = []"
proof -
  have d: "distinct (map o_id partial_history)"
    by (simp add: partial_history_def mk_order_def)
  have c: "calculated_pnls (\<lambda>symbol. []) (select_orders partial_history) = [(2, 600), (3, 400)]"
    unfolding select_partial_history by (simp add: partial_history_def replay_defs)
  show ?thesis using d c backfill_idempotent [OF d, of True] by simp
qed


section \<open>Balance reconciliation: properties\<close>

lemma find_account_map:
  "(\<And>a. a_id (f a) = a_id a) \<Longrightarrow>
   find (\<lambda>a. a_id a = i) (map f xs) = map_option f (find (\<lambda>a. a_id a = i) xs)"
  by (induction xs) simp_all

lemma total_position_value_defined:
  "list_all (\<lambda>p. p_current_price p \<noteq> None) ps \<Longrightarrow> \<exists>v. total_position_value acc ps = Some v"
  by (induction ps arbitrary: acc) auto

lemma calculate_account_balance_defined:
  assumes "find (\<lambda>a. a_id a = 1) (db_account db) = Some account"
    and "list_all (\<lambda>p. p_current_price p \<noteq> None) (db_positions db)"
  shows "\<exists>bal. calculate_account_balance db = Some bal \<and> b_cash bal = a_cash account"
  using assms total_position_value_defined[OF assms(2), of 0]
  by (auto simp: calculate_account_balance_def)

lemma check_after_update:
  assumes c: "calculate_account_balance db = Some bal"
  shows "check_balance_discrepancy (fst (update_account_balance now db)) threshold =
         Some [(''calculated_total'', Float (b_total_value bal)),
               (''stored_total'', Float (b_total_value bal)),
               (''discrepancy'', Float 0),
               (''discrepancy_pct'', Float 0),
               (''has_issue'', Bool (0 > threshold))]"
proof -
  obtain account where acc: "find (\<lambda>a. a_id a = 1) (db_account db) = Some account"
    using c by (auto simp: calculate_account_balance_def split: option.splits)
  define f :: "account_row \<Rightarrow> account_row" where "f = (\<lambda>a. if a_id a = 1
      then a\<lparr>a_total_value := Some (b_total_value bal), a_last_updated := now\<rparr> else a)"
  define db' where "db' = db\<lparr>db_account := map f (db_account db)\<rparr>"
  have u: "fst (update_account_balance now db) = db'"
    using c by (simp add: update_account_balance_def db'_def f_def)
  have fid: "a_id (f a) = a_id a" for a by (simp add: f_def)
  have acc': "find (\<lambda>a. a_id a = 1) (db_account db') = Some (f account)"
    using acc by (simp add: db'_def find_account_map[of f, OF fid])
  have a1: "a_id account = 1" using acc by (auto simp: find_Some_iff)
  have fa: "a_cash (f account) = a_cash account" "a_total_value (f account) = Some (b_total_value bal)"
    using a1 by (simp_all add: f_def)
  have c': "calculate_account_balance db' = Some bal"
    using c acc acc' fa by (auto simp: calculate_account_balance_def db'_def split: option.splits)
  show ?thesis
    unfolding u using c' acc' fa by (simp add: check_balance_discrepancy_def)
qed

text \<open>
  C2.  On a ledger with its account row and a price on every position, the discrepancy
  check that follows a reconciliation reports a discrepancy of zero (and no issue for a
  threshold that is not negative).  With stored total 10,000, cash 5,000 and positions
  worth 34,850 the check first reports 29,850; the reconciliation stores 39,850 and the
  next check reports zero.
\<close>

theorem reconcile_then_check:
  "(find (\<lambda>a. a_id a = 1) (db_account db) \<noteq> None
     \<and> list_all (\<lambda>p. p_current_price p \<noteq> None) (db_positions db) \<longrightarrow>
      (\<exists>total. map_option b_total_value (snd (update_account_balance now db)) = Some total
         \<and> check_balance_discrepancy (fst (update_account_balance now db)) threshold =
             Some [(''calculated_total'', Float total), (''stored_total'', Float total),
                   (''discrepancy'', Float 0), (''discrepancy_pct'', Float 0),
                   (''has_issue'', Bool (0 > threshold))]))
   \<and> check_balance_discrepancy drifted_ledger 1.0 =
        Some [(''calculated_total'', Float 39850), (''stored_total'', Float 10000),
              (''discrepancy'', Float 29850), (''discrepancy_pct'', Float 298.5),
              (''has_issue'', Bool True)]
   \<and> map a_total_value (db_account (fst (update_account_balance now drifted_ledger))) = [Some 39850]
   \<and> check_balance_discrepancy (fst (update_account_balance now drifted_ledger)) 1.0 =
        Some [(''calculated_total'', Float 39850), (''stored_total'', Float 39850),
              (''discrepancy'', Float 0), (''discrepancy_pct'', Float 0),
              (''has_issue'', Bool False)]"
proof -
  have gen: "\<exists>total. map_option b_total_value (snd (update_account_balance now db)) = Some total
         \<and> check_balance_discrepancy (fst (update_account_balance now db)) threshold =
             Some [(''calculated_total'', Float total), (''stored_total'', Float total),
                   (''discrepancy'', Float 0), (''discrepancy_pct'', Float 0),
                   (''has_issue'', Bool (0 > threshold))]"
    if h: "find (\<lambda>a. a_id a = 1) (db_account db) \<noteq> None"
          "list_all (\<lambda>p. p_current_price p \<noteq> None) (db_positions db)"
  proof -
    obtain account where "find (\<lambda>a. a_id a = 1) (db_account db) = Some account" using h(1) by auto
    then obtain bal where c: "calculate_account_balance db = Some bal"
      using calculate_account_balance_defined h(2) by blast
    have "map_option b_total_value (snd (update_account_balance now db)) = Some (b_total_value bal)"
      using c by (simp add: update_account_balance_def)
    then show ?thesis using check_after_update[OF c] by blast
  qed
  have e0: "calculate_account_balance drifted_ledger =
      Some \<lparr>b_cash = 5000, b_positions_value = 34850, b_total_value = 39850, b_num_positions = 3\<rparr>"
    by (simp add: calculate_account_balance_def drifted_ledger_def mk_position_def)
  have e1: "check_balance_discrepancy drifted_ledger 1.0 =
        Some [(''calculated_total'', Float 39850), (''stored_total'', Float 10000),
              (''discrepancy'', Float 29850), (''discrepancy_pct'', Float 298.5),
              (''has_issue'', Bool True)]"
    by (simp add: check_balance_discrepancy_def e0) (simp add: drifted_ledger_def)
  have e2: "map a_total_value (db_account (fst (update_account_balance now drifted_ledger))) = [Some 39850]"
    by (simp add: update_account_balance_def e0) (simp add: drifted_ledger_def)
  have e3: "check_balance_discrepancy (fst (update_account_balance now drifted_ledger)) 1.0 =
        Some [(''calculated_total'', Float 39850), (''stored_total'', Float 39850),
              (''discrepancy'', Float 0), (''discrepancy_pct'', Float 0),
              (''has_issue'', Bool False)]"
    using check_after_update[OF e0, of now "1.0"] by simp
  show ?thesis using gen e1 e2 e3 by blast
qed

theorem reconcile_then_check_witness:
  "find (\<lambda>a. a_id a = 1) (db_account drifted_ledger) \<noteq> None
   \<and> list_all (\<lambda>p. p_current_price p \<noteq> None) (db_positions drifted_ledger)
   \<and> map_option b_total_value (snd (update_account_balance ''2024-01-03'' drifted_ledger))
       = Some 39850
   \<and> check_balance_discrepancy (fst (update_account_balance ''2024-01-03'' drifted_ledger)) 1.0 =
        Some [(''calculated_total'', Float 39850), (''stored_total'', Float 39850),
              (''discrepancy'', Float 0), (''discrepancy_pct'', Float 0),
              (''has_issue'', Bool False)]"
proof -
  have h: "find (\<lambda>a. a_id a = 1) (db_account drifted_ledger) \<noteq> None
     \<and> list_all (\<lambda>p. p_current_price p \<noteq> None) (db_positions drifted_ledger)"
    by (simp add: drifted_ledger_def mk_position_def)
  have v: "map_option b_total_value (snd (update_account_balance ''2024-01-03'' drifted_ledger))
       = Some 39850"
    by (simp add: update_account_balance_def calculate_account_balance_def drifted_ledger_def
        mk_position_def)
  show ?thesis
    using h v reconcile_then_check [of drifted_ledger "''2024-01-03''" "1.0"] by simp
qed

text \<open>
  C8, as the code has it.  The check flags an issue exactly when the absolute difference
  between the stored and the computed total exceeds the threshold; the percentage drift
  is always reported, as \<open>0\<close> when the stored total is not positive.
\<close>

theorem discrepancy_flag:
  assumes "calculate_account_balance db = Some bal"
    and "find (\<lambda>a. a_id a = 1) (db_account db) = Some account"
    and "a_total_value account = Some stored"
  shows "\<exists>r. check_balance_discrepancy db threshold = Some r
           \<and> map_of r ''has_issue'' = Some (Bool (\<bar>stored - b_total_value bal\<bar> > threshold))
           \<and> map_of r ''discrepancy_pct'' =
               Some (Float (if stored > 0 then (b_total_value bal - stored) / stored * 100 else 0))"
  using assms by (simp add: check_balance_discrepancy_def Let_def abs_minus_commute)

theorem discrepancy_flag_witness:
  "calculate_account_balance drifted_ledger =
     Some \<lparr>b_cash = 5000, b_positions_value = 34850, b_total_value = 39850, b_num_positions = 3\<rparr>
   \<and> map_option (\<lambda>r. (map_of r ''has_issue'', map_of r ''discrepancy_pct''))
         (check_balance_discrepancy drifted_ledger 1.0)
       = Some (Some (Bool True), Some (Float 298.5))"
proof -
  have c: "calculate_account_balance drifted_ledger =
     Some \<lparr>b_cash = 5000, b_positions_value = 34850, b_total_value = 39850, b_num_positions = 3\<rparr>"
    by (simp add: calculate_account_balance_def drifted_ledger_def mk_position_def)
  have a: "find (\<lambda>a. a_id a = 1) (db_account drifted_ledger)
      = Some \<lparr>a_id = 1, a_cash = 5000, a_total_value = Some 10000, a_last_updated = ''2024-01-01''\<rparr>"
    by (simp add: drifted_ledger_def)
  show ?thesis
    using c discrepancy_flag [OF c a, of 10000 "1.0"] by auto
qed

text \<open>
  C8 as stated fails: with a stored total of zero the result still carries a percentage,
  the number \<open>0\<close>.
\<close>

theorem discrepancy_pct_counterexample:
  "map_option (\<lambda>r. map_of r ''discrepancy_pct'') (check_balance_discrepancy zero_stored_ledger 1.0)
     = Some (Some (Float 0))"
  by (simp add: check_balance_discrepancy_def calculate_account_balance_def zero_stored_ledger_def)



section \<open>Schema: properties\<close>

lemmas schema_defs =
  init_schema_def create_screener_tables_def create_youtube_strategy_tables_def
  create_trading_tables_def create_table_if_not_exists_def columns_of_def
  account_sql_def positions_sql_def orders_sql_def performance_sql_def strategies_sql_def
  backtests_sql_def profiles_sql_def runs_sql_def profile_performance_sql_def

lemmas migration_defs =
  ledger_schema_def postgres_schema_def monitored_schema_def migrate_database_def
  create_postgres_schema_def add_column_def

lemma account_columns:
  "columns_of (init_schema db_type []) ''account'' = [''id'', ''cash'', ''last_updated'']"
  by (cases db_type) (simp_all add: schema_defs)

lemma init_orders_columns:
  "columns_of (init_schema Sqlite []) ''orders''
     = [''id'', ''symbol'', ''side'', ''quantity'', ''price'', ''timestamp'', ''pnl'']"
  by (simp add: schema_defs)


lemma ledger_positions_columns:
  "columns_of ledger_schema ''positions''
     = [''symbol'', ''quantity'', ''entry_price'', ''entry_date'', ''last_updated'',
        ''current_price'', ''strategy'', ''classification'', ''profit_target'']"
  by (simp add: schema_defs migration_defs)

lemma monitored_positions_columns:
  "columns_of monitored_schema ''positions''
     = [''symbol'', ''quantity'', ''entry_price'', ''entry_date'', ''last_updated'',
        ''current_price'', ''strategy'', ''classification'', ''profit_target'', ''stop_loss'']"
  by (simp add: schema_defs migration_defs)

lemma postgres_positions_columns:
  "columns_of postgres_schema ''positions''
     = [''symbol'', ''quantity'', ''entry_price'', ''entry_date'', ''last_updated'',
        ''current_price'', ''strategy'', ''classification'', ''profit_target'', ''stop_loss'']"
  by (simp add: schema_defs migration_defs)

lemma postgres_account_columns:
  "columns_of postgres_schema ''account'' = [''id'', ''cash'', ''last_updated'', ''total_value'']"
  by (simp add: schema_defs migration_defs)

text \<open>
  C9, as the code has it.  On an empty store \<open>init_schema\<close> creates \<open>account\<close> with the
  columns \<open>id\<close>, \<open>cash\<close> and \<open>last_updated\<close>, for both backends; \<open>total_value\<close> is
  added by the orchestrator migration on SQLite and by the \<open>ALTER TABLE\<close> step of
  \<open>create_postgres_schema\<close> on PostgreSQL.
\<close>

theorem init_schema_account_columns:
  "columns_of (init_schema db_type []) ''account'' = [''id'', ''cash'', ''last_updated'']
   \<and> map_option (\<lambda>sch. columns_of sch ''account'') (migrate_database (init_schema Sqlite []))
       = Some [''id'', ''cash'', ''last_updated'', ''total_value'']
   \<and> columns_of (create_postgres_schema []) ''account''
       = [''id'', ''cash'', ''last_updated'', ''total_value'']"
proof -
  have b: "map_option (\<lambda>sch. columns_of sch ''account'') (migrate_database (init_schema Sqlite []))
       = Some [''id'', ''cash'', ''last_updated'', ''total_value'']"
    by (simp add: schema_defs migrate_database_def add_column_def)
  show ?thesis using account_columns b postgres_account_columns by (simp add: postgres_schema_def)
qed

text \<open>C9 as stated fails: the account table of \<open>init_schema\<close> has no \<open>total_value\<close>.\<close>

theorem init_schema_account_counterexample:
  "''total_value'' \<notin> set (columns_of (init_schema Sqlite []) ''account'')"
  by (simp add: account_columns)



section \<open>Stop-loss monitor: properties\<close>

text \<open>
  C3.  A position of 10.5 shares with stop-loss 95, quote 94, on a SQLite store whose
  \<open>positions\<close> table has a \<open>stop_loss\<close> column: the pass posts one market sell, for 10
  shares, not for the 10.5 held.  On the stores the schema code creates no order is
  posted at all: on SQLite the table has no \<open>stop_loss\<close> column and the query raises; on
  PostgreSQL the rows are dictionaries and reading the first one by position raises.
\<close>

theorem stop_loss_sell_truncates:
  "check_stop_losses Sqlite monitored_schema quote_94 accepting_api
       [mk_position ''TSLA'' 10.5 100 (Some 94) (Some 95)]
     = Inr [(\<lparr>od_symbol = ''TSLA'', od_side = ''sell'', od_quantity = 10,
              od_order_type = ''market''\<rparr>, True)]
   \<and> check_stop_losses Sqlite ledger_schema quote_94 accepting_api
       [mk_position ''TSLA'' 10 100 (Some 94) (Some 95)]
     = Inl OperationalError
   \<and> check_stop_losses Postgresql postgres_schema quote_94 accepting_api
       [mk_position ''TSLA'' 10 100 (Some 94) (Some 95)]
     = Inl KeyError"
proof -
  have a: "check_stop_losses Sqlite monitored_schema quote_94 accepting_api
       [mk_position ''TSLA'' 10.5 100 (Some 94) (Some 95)]
     = Inr [(\<lparr>od_symbol = ''TSLA'', od_side = ''sell'', od_quantity = 10,
              od_order_type = ''market''\<rparr>, True)]"
    by (simp add: check_stop_losses_def get_positions_with_stop_loss_def has_columns_def
        monitored_positions_columns mk_position_def quote_94_def accepting_api_def
        get_current_price_def execute_stop_loss_sell_def py_int_def)
  have b: "check_stop_losses Sqlite ledger_schema quote_94 accepting_api
       [mk_position ''TSLA'' 10 100 (Some 94) (Some 95)] = Inl OperationalError"
    by (simp add: check_stop_losses_def get_positions_with_stop_loss_def has_columns_def
        ledger_positions_columns)
  have c: "check_stop_losses Postgresql postgres_schema quote_94 accepting_api
       [mk_position ''TSLA'' 10 100 (Some 94) (Some 95)] = Inl KeyError"
    by (simp add: check_stop_losses_def get_positions_with_stop_loss_def has_columns_def
        postgres_positions_columns mk_position_def)
  show ?thesis using a b c by simp
qed



section \<open>Order placement: properties\<close>



lemma has_columns_sub:
  "has_columns sch name cols \<Longrightarrow> set cols' \<subseteq> set cols \<Longrightarrow> has_columns sch name cols'"
  by (auto simp: has_columns_def list_all_iff)




end
